theory Spec2Isabelle
  imports Complex_Main "HOL-Library.Word"
begin

unbundle bit_operations_syntax

section \<open>The BUS cartridge (CartridgeBUS): data model\<close>

text \<open>
  The embedding follows \<^verbatim>\<open>CartBUS.cxx\<close>.  Machine integers are words of the
  declared width; \<^verbatim>\<open>Int32\<close> fields are kept as their 32-bit pattern.  The arrays
  \<^verbatim>\<open>myImage[32768]\<close>, \<^verbatim>\<open>myBUSRAM[8192]\<close> and the three voice arrays are lists, and
  the predicate \<open>wellFormed\<close> below records their declared lengths.  A read or write outside
  an array is undefined behaviour in C++; the operations that can reach one return
  \<open>None\<close> there.
\<close>

type_synonym uInt8 = "8 word"
type_synonym uInt16 = "16 word"
type_synonym uInt32 = "32 word"

text \<open>
  The cartridge object together with the two parts of \<^verbatim>\<open>System\<close> that the
  cartridge reads or writes: the cycle counter (\<open>sysCycles\<close>, the value of
  \<^verbatim>\<open>mySystem->cycles()\<close>) and the page table (\<open>sysPages\<close>: page number to the
  index into \<^verbatim>\<open>myCodeAccessBase\<close> installed by \<^verbatim>\<open>setPageAccess\<close>).  The type
  parameter \<open>'f\<close> stands for \<^verbatim>\<open>double\<close>: the cartridge carries floating-point
  values, and what is computed with them is a parameter of the model (\<open>env\<close> below).
\<close>

record 'f cart =
  myImage :: "uInt8 list"
  myBUSRAM :: "uInt8 list"
  myCurrentBank :: uInt16
  myStartBank :: uInt16
  myBankChanged :: bool
  myBankLocked :: bool
  mySystemCycles :: uInt32
  myARMCycles :: uInt32
  myFractionalClocks :: 'f
  myBusOverdriveAddress :: uInt16
  mySTYZeroPageAddress :: uInt16
  myJMPoperandAddress :: uInt16
  myMusicCounters :: "uInt32 list"
  myMusicFrequencies :: "uInt32 list"
  myMusicWaveformSize :: "uInt8 list"
  myMode :: uInt8
  myFastJumpActive :: uInt8
  sysCycles :: uInt32
  sysPages :: "nat \<Rightarrow> nat option"

text \<open>
  What the cartridge uses and \<^verbatim>\<open>CartBUS.cxx\<close> does not define, taken as
  parameters: \<^verbatim>\<open>System::PAGE_SHIFT\<close>, the string returned by \<^verbatim>\<open>name()\<close>, the
  floating-point computations (\<open>toClocks cycles frac\<close> is the pair of
  \<^verbatim>\<open>Int32(clocks)\<close> and \<^verbatim>\<open>clocks - double(wholeClocks)\<close> for
  \<^verbatim>\<open>clocks = ((20000.0 * cycles) / 1193191.66666667) + frac\<close>; \<open>fracOut f\<close> is
  \<^verbatim>\<open>(uInt32)(f * 100000000.0)\<close>; \<open>fracIn n\<close> is \<^verbatim>\<open>(double)n / 100000000.0\<close>;
  \<open>fracZero\<close> is \<^verbatim>\<open>0.0\<close>), and the effect of \<^verbatim>\<open>myThumbEmulator->run(cycles)\<close> on
  the cartridge.
\<close>

record 'f env =
  PAGE_SHIFT :: nat
  name :: string
  toClocks :: "uInt32 \<Rightarrow> 'f \<Rightarrow> uInt32 \<times> 'f"
  fracOut :: "'f \<Rightarrow> uInt32"
  fracIn :: "uInt32 \<Rightarrow> 'f"
  fracZero :: 'f
  thumbRun :: "uInt32 \<Rightarrow> 'f cart \<Rightarrow> 'f cart"

definition wellFormed :: "'f cart \<Rightarrow> bool" where
  "wellFormed s \<longleftrightarrow>
     length (myImage s) = 32768 \<and> length (myBUSRAM s) = 8192 \<and>
     length (myMusicCounters s) = 3 \<and> length (myMusicFrequencies s) = 3 \<and>
     length (myMusicWaveformSize s) = 3"

subsection \<open>Locations within the RAM copy of the BUS driver\<close>

definition DSxPTR :: nat where "DSxPTR = 0x06D8"
definition DSxINC :: nat where "DSxINC = 0x0720"
definition DSMAPS :: nat where "DSMAPS = 0x0760"
definition WAVEFORM :: nat where "WAVEFORM = 0x07F4"
definition DSRAM :: nat where "DSRAM = 0x0800"

definition COMMSTREAM :: uInt8 where "COMMSTREAM = 0x10"
definition JUMPSTREAM :: uInt8 where "JUMPSTREAM = 0x11"

definition BUS_STUFF_ON :: "'f cart \<Rightarrow> bool" where
  "BUS_STUFF_ON s \<longleftrightarrow> (myMode s AND 0x0F) = 0"

definition DIGITAL_AUDIO_ON :: "'f cart \<Rightarrow> bool" where
  "DIGITAL_AUDIO_ON s \<longleftrightarrow> (myMode s AND 0xF0) = 0"

text \<open>
  \<^verbatim>\<open>myProgramImage = myImage + 4096\<close> and \<^verbatim>\<open>myDisplayImage = myBUSRAM + DSRAM\<close> are
  views of the two arrays.  \<open>myProgramImage\<close> checks the bound of \<^verbatim>\<open>myImage\<close>;
  \<open>myDisplayImage\<close> is used where the index is below 4096 and \<open>displayByte\<close> where it
  need not be.
\<close>

definition myProgramImage :: "'f cart \<Rightarrow> nat \<Rightarrow> uInt8 option" where
  "myProgramImage s i = (if 4096 + i < 32768 then Some (myImage s ! (4096 + i)) else None)"

definition myDisplayImage :: "'f cart \<Rightarrow> nat \<Rightarrow> uInt8" where
  "myDisplayImage s i = myBUSRAM s ! (DSRAM + i)"

definition displayByte :: "'f cart \<Rightarrow> nat \<Rightarrow> uInt8 option" where
  "displayByte s i = (if DSRAM + i < 8192 then Some (myBUSRAM s ! (DSRAM + i)) else None)"

subsection \<open>Four little-endian bytes in the RAM\<close>

text \<open>
  The getters all compute
  \<^verbatim>\<open>myBUSRAM[b] + (myBUSRAM[b+1] << 8) + (myBUSRAM[b+2] << 16) + (myBUSRAM[b+3] << 24)\<close>
  and the setters store \<^verbatim>\<open>value & 0xff\<close>, \<^verbatim>\<open>(value >> 8) & 0xff\<close>, \<^verbatim>\<open>(value >> 16) & 0xff\<close>
  and \<^verbatim>\<open>(value >> 24) & 0xff\<close> at \<^verbatim>\<open>b\<close> to \<^verbatim>\<open>b+3\<close>.
\<close>

definition getLE32 :: "uInt8 list \<Rightarrow> nat \<Rightarrow> uInt32" where
  "getLE32 ram b =
     ucast (ram ! b) + push_bit 8 (ucast (ram ! (b + 1)))
       + push_bit 16 (ucast (ram ! (b + 2))) + push_bit 24 (ucast (ram ! (b + 3)))"

definition setLE32 :: "uInt8 list \<Rightarrow> nat \<Rightarrow> uInt32 \<Rightarrow> uInt8 list" where
  "setLE32 ram b v =
     ram[b := ucast (v AND 0xff),
         b + 1 := ucast (drop_bit 8 v AND 0xff),
         b + 2 := ucast (drop_bit 16 v AND 0xff),
         b + 3 := ucast (drop_bit 24 v AND 0xff)]"

definition getDatastreamPointer :: "'f cart \<Rightarrow> uInt8 \<Rightarrow> uInt32" where
  "getDatastreamPointer s index = getLE32 (myBUSRAM s) (DSxPTR + unat index * 4)"

definition setDatastreamPointer :: "uInt8 \<Rightarrow> uInt32 \<Rightarrow> 'f cart \<Rightarrow> 'f cart" where
  "setDatastreamPointer index v s =
     s\<lparr>myBUSRAM := setLE32 (myBUSRAM s) (DSxPTR + unat index * 4) v\<rparr>"

definition getDatastreamIncrement :: "'f cart \<Rightarrow> uInt8 \<Rightarrow> uInt32" where
  "getDatastreamIncrement s index = getLE32 (myBUSRAM s) (DSxINC + unat index * 4)"

definition setDatastreamIncrement :: "uInt8 \<Rightarrow> uInt32 \<Rightarrow> 'f cart \<Rightarrow> 'f cart" where
  "setDatastreamIncrement index v s =
     s\<lparr>myBUSRAM := setLE32 (myBUSRAM s) (DSxINC + unat index * 4) v\<rparr>"

definition getAddressMap :: "'f cart \<Rightarrow> uInt8 \<Rightarrow> uInt32" where
  "getAddressMap s index = getLE32 (myBUSRAM s) (DSMAPS + unat index * 4)"

definition setAddressMap :: "uInt8 \<Rightarrow> uInt32 \<Rightarrow> 'f cart \<Rightarrow> 'f cart" where
  "setAddressMap index v s =
     s\<lparr>myBUSRAM := setLE32 (myBUSRAM s) (DSMAPS + unat index * 4) v\<rparr>"

definition getWaveform :: "'f cart \<Rightarrow> uInt8 \<Rightarrow> uInt32" where
  "getWaveform s index =
     (let result = getLE32 (myBUSRAM s) (WAVEFORM + unat index * 4);
          result = result - 0x40000800
      in if result \<ge> 4096 then 0 else result)"

definition getSample :: "'f cart \<Rightarrow> uInt32" where
  "getSample s = getLE32 (myBUSRAM s) WAVEFORM"

definition getWaveformSize :: "'f cart \<Rightarrow> uInt8 \<Rightarrow> uInt32" where
  "getWaveformSize s index = ucast (myMusicWaveformSize s ! unat index)"

text \<open>
  \<^verbatim>\<open>readFromDatastream\<close>: the increment is narrowed to \<^verbatim>\<open>uInt16\<close> on
  assignment, and \<^verbatim>\<open>increment << 12\<close> is computed after promotion to \<^verbatim>\<open>int\<close>.
\<close>

definition readFromDatastream :: "uInt8 \<Rightarrow> 'f cart \<Rightarrow> uInt8 \<times> 'f cart" where
  "readFromDatastream index s =
     (let pointer = getDatastreamPointer s index;
          increment = (ucast (getDatastreamIncrement s index) :: uInt16);
          v = myDisplayImage s (unat (drop_bit 20 pointer));
          pointer = pointer + push_bit 12 (ucast increment)
      in (v, setDatastreamPointer index pointer s))"

subsection \<open>Bank lock, bank switching, patching\<close>

text \<open>
  Modelled from the spec: the lock flag of the base class \<^verbatim>\<open>Cartridge\<close>
  (\<^verbatim>\<open>lockBank\<close>, \<^verbatim>\<open>unlockBank\<close>, \<^verbatim>\<open>bankLocked\<close>), which \<^verbatim>\<open>CartBUS.cxx\<close> calls
  and does not define: "a lock flag that disables all bank-mutating hotspots while
  held".
\<close>

definition bankLocked :: "'f cart \<Rightarrow> bool" where
  "bankLocked s = myBankLocked s"

definition lockBank :: "'f cart \<Rightarrow> 'f cart" where
  "lockBank s = s\<lparr>myBankLocked := True\<rparr>"

definition unlockBank :: "'f cart \<Rightarrow> 'f cart" where
  "unlockBank s = s\<lparr>myBankLocked := False\<rparr>"

text \<open>
  The loop of \<^verbatim>\<open>bank\<close>: for \<^verbatim>\<open>address\<close> from \<^verbatim>\<open>0x1040\<close> while below \<^verbatim>\<open>0x2000\<close>, in
  steps of \<^verbatim>\<open>1 << PAGE_SHIFT\<close>, page \<^verbatim>\<open>address >> PAGE_SHIFT\<close> gets the code-access
  base \<^verbatim>\<open>offset + (address & 0x0FFF)\<close>.
\<close>

function mapPages :: "nat \<Rightarrow> nat \<Rightarrow> nat \<Rightarrow> (nat \<Rightarrow> nat option) \<Rightarrow> (nat \<Rightarrow> nat option)" where
  "mapPages ps offset address pages =
     (if address < 0x2000
      then mapPages ps offset (address + 2 ^ ps)
             (pages(address div 2 ^ ps \<mapsto> offset + address mod 0x1000))
      else pages)"
  by pat_completeness auto
termination
proof (relation "measure (\<lambda>(ps, offset, address, pages). 0x2000 - address)")
  fix ps offset address :: nat and pages :: "nat \<Rightarrow> nat option"
  assume "address < 0x2000"
  moreover have "0 < (2::nat) ^ ps" by simp
  ultimately have "0x2000 - (address + 2 ^ ps) < 0x2000 - address" by linarith
  then show "((ps, offset, address + 2 ^ ps,
               pages(address div 2 ^ ps \<mapsto> offset + address mod 0x1000)),
              (ps, offset, address, pages))
             \<in> measure (\<lambda>(ps, offset, address, pages). 0x2000 - address)"
    by simp
qed simp

declare mapPages.simps [simp del]

definition bank :: "'f env \<Rightarrow> uInt16 \<Rightarrow> 'f cart \<Rightarrow> bool \<times> 'f cart" where
  "bank e b s =
     (if bankLocked s then (False, s)
      else
        let s1 = s\<lparr>myCurrentBank := b\<rparr>;
            offset = (push_bit 12 (myCurrentBank s1) :: uInt16);
            s2 = s1\<lparr>sysPages := mapPages (PAGE_SHIFT e) (unat offset) 0x1040 (sysPages s1)\<rparr>
        in (True, s2\<lparr>myBankChanged := True\<rparr>))"

definition getBank :: "'f cart \<Rightarrow> uInt16" where
  "getBank s = myCurrentBank s"

definition bankCount :: "'f cart \<Rightarrow> uInt16" where
  "bankCount s = 7"

text \<open>
  \<^verbatim>\<open>patch\<close> writes \<^verbatim>\<open>myProgramImage[(myCurrentBank << 12) + (address & 0x0FFF)]\<close>;
  the index is computed in \<^verbatim>\<open>int\<close> and can lie outside \<^verbatim>\<open>myImage\<close> when the bank
  register is above 6.
\<close>

definition patch :: "uInt16 \<Rightarrow> uInt8 \<Rightarrow> 'f cart \<Rightarrow> (bool \<times> 'f cart) option" where
  "patch address v s =
     (let address = address AND 0x0FFF in
      if address \<ge> 0x0040 then
        let i = 4096 + (unat (myCurrentBank s) * 4096 + unat (address AND 0x0FFF)) in
        if i < 32768
        then Some (True, s\<lparr>myImage := (myImage s)[i := v], myBankChanged := True\<rparr>)
        else None
      else Some (False, s))"

subsection \<open>Construction and reset\<close>

definition setInitialState :: "'f cart \<Rightarrow> 'f cart" where
  "setInitialState s =
     s\<lparr>myBUSRAM := take 0x0800 (myImage s) @ drop 0x0800 (myBUSRAM s),
       myMusicWaveformSize := (myMusicWaveformSize s)[0 := 27, 1 := 27, 2 := 27],
       myStartBank := 6,
       myMode := 0xFF\<rparr>"

text \<open>
  The constructor copies \<^verbatim>\<open>min(32768, size)\<close> bytes of the image and initialises
  three members; \<open>s0\<close> is the object before construction, whose other members the
  constructor leaves as they are.
\<close>

definition CartridgeBUS :: "'f env \<Rightarrow> uInt8 list \<Rightarrow> 'f cart \<Rightarrow> 'f cart" where
  "CartridgeBUS e img s0 =
     (let n = min 32768 (length img) in
      setInitialState
        (s0\<lparr>mySystemCycles := 0, myARMCycles := 0, myFractionalClocks := fracZero e,
            myImage := take n img @ drop n (myImage s0)\<rparr>))"

text \<open>
  \<^verbatim>\<open>reset\<close>: \<open>rnd\<close> is \<open>None\<close> when the setting \<^verbatim>\<open>ramrandom\<close> is off and
  \<open>Some r\<close>, with the bytes \<open>r\<close> that \<^verbatim>\<open>initializeRAM\<close> draws, when it is on.
\<close>

definition reset :: "'f env \<Rightarrow> (nat \<Rightarrow> uInt8) option \<Rightarrow> 'f cart \<Rightarrow> 'f cart" where
  "reset e rnd s =
     (let fill = (case rnd of None \<Rightarrow> replicate (8192 - 2048) 0
                            | Some r \<Rightarrow> map r [0..<8192 - 2048]);
          s1 = s\<lparr>myBUSRAM := take 2048 (myBUSRAM s) @ fill\<rparr>;
          s2 = s1\<lparr>mySystemCycles := sysCycles s1, myARMCycles := sysCycles s1,
                 myFractionalClocks := fracZero e\<rparr>;
          s3 = setInitialState s2
      in snd (bank e (myStartBank s3) s3))"

subsection \<open>Music data fetchers and the ARM call\<close>

definition updateMusicModeDataFetchers :: "'f env \<Rightarrow> 'f cart \<Rightarrow> 'f cart" where
  "updateMusicModeDataFetchers e s =
     (let cycles = sysCycles s - mySystemCycles s;
          s1 = s\<lparr>mySystemCycles := sysCycles s\<rparr>;
          (wholeClocks, frac) = toClocks e cycles (myFractionalClocks s1);
          s2 = s1\<lparr>myFractionalClocks := frac\<rparr>
      in if sint wholeClocks \<le> 0 then s2
         else s2\<lparr>myMusicCounters :=
                  fold (\<lambda>x cs. cs[x := cs ! x + myMusicFrequencies s2 ! x * wholeClocks])
                    [0, 1, 2] (myMusicCounters s2)\<rparr>)"

definition callFunction :: "'f env \<Rightarrow> uInt8 \<Rightarrow> 'f cart \<Rightarrow> 'f cart" where
  "callFunction e v s =
     (if v = 254 \<or> v = 255 then
        let cycles = sysCycles s - myARMCycles s;
            s1 = s\<lparr>myARMCycles := sysCycles s\<rparr>
        in thumbRun e cycles s1
      else s)"

text \<open>
  The body of the \<^verbatim>\<open>AMPLITUDE\<close> case of \<^verbatim>\<open>peek\<close> after the data fetchers are
  updated.  \<open>waveByte s x\<close> is
  \<^verbatim>\<open>myDisplayImage[getWaveform(x) + (myMusicCounters[x] >> myMusicWaveformSize[x])]\<close>;
  a shift by 32 or more and an index outside \<^verbatim>\<open>myBUSRAM\<close> are undefined.
\<close>

definition waveByte :: "'f cart \<Rightarrow> nat \<Rightarrow> uInt8 option" where
  "waveByte s x =
     (let sh = unat (myMusicWaveformSize s ! x) in
      if sh < 32
      then displayByte s (unat (getWaveform s (of_nat x) + drop_bit sh (myMusicCounters s ! x)))
      else None)"

definition amplitude :: "'f cart \<Rightarrow> uInt8 option" where
  "amplitude s =
     (if DIGITAL_AUDIO_ON s then
        let i = unat (getSample s + drop_bit 21 (myMusicCounters s ! 0)) in
        if i < 32768 then
          let peekvalue = myImage s ! i;
              peekvalue = (if (myMusicCounters s ! 0 AND push_bit 20 1) = 0
                           then drop_bit 4 peekvalue else peekvalue)
          in Some (peekvalue AND 0x0f)
        else None
      else
        (case waveByte s 0 of None \<Rightarrow> None | Some a \<Rightarrow>
         case waveByte s 1 of None \<Rightarrow> None | Some b \<Rightarrow>
         case waveByte s 2 of None \<Rightarrow> None | Some c \<Rightarrow>
           Some (ucast ((ucast a + ucast b + ucast c) :: uInt32))))"

subsection \<open>Bus stuffing on writes\<close>

definition busOverdrive :: "uInt16 \<Rightarrow> 'f cart \<Rightarrow> uInt8 \<times> 'f cart" where
  "busOverdrive address s =
     (let (overdrive, s1) =
        (if address = myBusOverdriveAddress s then
           let map = (ucast (address AND 0x7f) :: uInt8) in
           if map \<le> 0x24 then
             let alldatastreams = getAddressMap s map;
                 datastream = (ucast (alldatastreams AND 0x0f) :: uInt8);
                 (overdrive, s') = readFromDatastream datastream s;
                 alldatastreams = drop_bit 4 alldatastreams;
                 alldatastreams = alldatastreams OR push_bit 28 (ucast datastream)
             in (overdrive, setAddressMap map alldatastreams s')
           else (0xff, s)
         else (0xff, s))
      in (overdrive, s1\<lparr>myBusOverdriveAddress := 0xff\<rparr>))"

subsection \<open>peek and poke\<close>

text \<open>
  Accesses below \<^verbatim>\<open>0x1000\<close> are passed on to the M6532 or the TIA; the result
  names the device, whose answer is not the cartridge's.
\<close>

datatype peekResult = Value uInt8 | FromM6532 uInt16 | FromTIA uInt16

datatype pokeEffect = NoDevice | ToM6532 uInt16 uInt8 | ToTIA uInt16 uInt8

text \<open>
  The test for \<^verbatim>\<open>JMP FASTJUMP\<close>: the conjunction is evaluated left to right, and
  the two operand bytes are read only when the conjuncts before them hold.
\<close>

definition fastJumpOpcode :: "'f cart \<Rightarrow> uInt16 \<Rightarrow> uInt8 \<Rightarrow> bool option" where
  "fastJumpOpcode s address peekvalue =
     (if BUS_STUFF_ON s \<and> peekvalue = 0x4C then
        (case myProgramImage s (unat (myCurrentBank s) * 4096 + unat address + 1) of
           None \<Rightarrow> None
         | Some b1 \<Rightarrow>
             if b1 = 0 then
               (case myProgramImage s (unat (myCurrentBank s) * 4096 + unat address + 2) of
                  None \<Rightarrow> None
                | Some b2 \<Rightarrow> Some (b2 = 0))
             else Some False)
      else Some False)"

text \<open>The \<^verbatim>\<open>switch(address)\<close> of \<^verbatim>\<open>peek\<close>.\<close>

definition peekSwitch :: "'f env \<Rightarrow> uInt16 \<Rightarrow> uInt8 \<Rightarrow> 'f cart \<Rightarrow> (uInt8 \<times> 'f cart) option" where
  "peekSwitch e address peekvalue s =
     (if address = 0xFEE then
        let s1 = updateMusicModeDataFetchers e s in
        (case amplitude s1 of None \<Rightarrow> None | Some v \<Rightarrow> Some (v, s1))
      else if address = 0xFEF then Some (readFromDatastream COMMSTREAM s)
      else if address = 0xFF0 \<or> address = 0xFF1 \<or> address = 0xFF2 \<or> address = 0xFF3
        then Some (peekvalue, s)
      else if address = 0x0FF5 then Some (peekvalue, snd (bank e 0 s))
      else if address = 0x0FF6 then Some (peekvalue, snd (bank e 1 s))
      else if address = 0x0FF7 then Some (peekvalue, snd (bank e 2 s))
      else if address = 0x0FF8 then Some (peekvalue, snd (bank e 3 s))
      else if address = 0x0FF9 then Some (peekvalue, snd (bank e 4 s))
      else if address = 0x0FFA then Some (peekvalue, snd (bank e 5 s))
      else if address = 0x0FFB then Some (peekvalue, snd (bank e 6 s))
      else Some (peekvalue, s))"

definition peek :: "'f env \<Rightarrow> uInt16 \<Rightarrow> 'f cart \<Rightarrow> (peekResult \<times> 'f cart) option" where
  "peek e address s =
     (if address AND 0x1000 = 0 then
        let lowAddress = address AND 0x3ff in
        if lowAddress AND 0x80 \<noteq> 0 then Some (FromM6532 address, s)
        else if lowAddress AND 0x200 = 0 then Some (FromTIA address, s)
        else Some (Value 0, s)
      else
        let address = address AND 0x0FFF in
        case myProgramImage s (unat (myCurrentBank s) * 4096 + unat address) of
          None \<Rightarrow> None
        | Some peekvalue \<Rightarrow>
            if bankLocked s then Some (Value peekvalue, s)
            else if myFastJumpActive s \<noteq> 0 \<and> myJMPoperandAddress s = address then
              let s1 = s\<lparr>myFastJumpActive := myFastJumpActive s - 1\<rparr>;
                  s2 = s1\<lparr>myJMPoperandAddress := myJMPoperandAddress s1 + 1\<rparr>;
                  pointer = getDatastreamPointer s2 JUMPSTREAM;
                  v = myDisplayImage s2 (unat (drop_bit 20 pointer));
                  pointer = pointer + 0x100000
              in Some (Value v, setDatastreamPointer JUMPSTREAM pointer s2)
            else
              (case fastJumpOpcode s address peekvalue of
                 None \<Rightarrow> None
               | Some True \<Rightarrow>
                   Some (Value peekvalue,
                         s\<lparr>myFastJumpActive := 2, myJMPoperandAddress := address + 1\<rparr>)
               | Some False \<Rightarrow>
                   let s1 = s\<lparr>myJMPoperandAddress := 0\<rparr>;
                       s2 = (if BUS_STUFF_ON s1 \<and> mySTYZeroPageAddress s1 = address
                             then s1\<lparr>myBusOverdriveAddress := ucast peekvalue\<rparr> else s1);
                       s3 = s2\<lparr>mySTYZeroPageAddress := 0\<rparr>
                   in (case peekSwitch e address peekvalue s3 of
                         None \<Rightarrow> None
                       | Some (peekvalue, s4) \<Rightarrow>
                           let s5 = (if BUS_STUFF_ON s4 \<and> peekvalue = 0x84
                                     then s4\<lparr>mySTYZeroPageAddress := address + 1\<rparr> else s4)
                           in Some (Value peekvalue, s5))))"

text \<open>
  The \<^verbatim>\<open>DSWRITE\<close> case of \<^verbatim>\<open>poke\<close>, which the source writes with the stream
  \<^verbatim>\<open>COMMSTREAM\<close>; the stream index is a parameter here.
\<close>

definition writeToDatastream :: "uInt8 \<Rightarrow> uInt8 \<Rightarrow> 'f cart \<Rightarrow> 'f cart" where
  "writeToDatastream index v s =
     (let pointer = getDatastreamPointer s index;
          s1 = s\<lparr>myBUSRAM := (myBUSRAM s)[DSRAM + unat (drop_bit 20 pointer) := v]\<rparr>;
          pointer = pointer + 0x100000
      in setDatastreamPointer index pointer s1)"

definition poke :: "'f env \<Rightarrow> uInt16 \<Rightarrow> uInt8 \<Rightarrow> 'f cart \<Rightarrow> bool \<times> pokeEffect \<times> 'f cart" where
  "poke e address v s =
     (if address AND 0x1000 = 0 then
        let (overdrive, s1) = busOverdrive address s;
            v = v AND overdrive;
            lowAddress = address AND 0x3ff
        in if lowAddress AND 0x80 \<noteq> 0 then (False, ToM6532 address v, s1)
           else if lowAddress AND 0x200 = 0 then (False, ToTIA address v, s1)
           else (False, NoDevice, s1)
      else
        let address = address AND 0x0FFF;
            s1 =
         (if address = 0xFEE \<or> address = 0xFEF then s
          else if address = 0xFF0 then writeToDatastream COMMSTREAM v s
          else if address = 0xFF1 then
            let pointer = getDatastreamPointer s COMMSTREAM;
                pointer = push_bit 8 pointer;
                pointer = pointer AND 0xf0000000;
                pointer = pointer OR push_bit 20 (ucast v)
            in setDatastreamPointer COMMSTREAM pointer s
          else if address = 0xFF2 then s\<lparr>myMode := v\<rparr>
          else if address = 0xFF3 then callFunction e v s
          else if address = 0x0FF5 then snd (bank e 0 s)
          else if address = 0x0FF6 then snd (bank e 1 s)
          else if address = 0x0FF7 then snd (bank e 2 s)
          else if address = 0x0FF8 then snd (bank e 3 s)
          else if address = 0x0FF9 then snd (bank e 4 s)
          else if address = 0x0FFA then snd (bank e 5 s)
          else if address = 0x0FFB then snd (bank e 6 s)
          else s)
        in (False, NoDevice, s1))"

subsection \<open>Saving and loading\<close>

text \<open>
  Modelled from the spec: the \<^verbatim>\<open>Serializer\<close> class, which \<^verbatim>\<open>save\<close> and \<^verbatim>\<open>load\<close>
  use and \<^verbatim>\<open>CartBUS.cxx\<close> does not define, "consumed as an opaque typed read/write
  stream".  A stream is the list of the typed values put into it; a \<^verbatim>\<open>get\<close> of one
  type succeeds on a value of that type (and, for arrays, of the requested size) at
  the front of the stream, and throws otherwise (\<open>None\<close>).  A \<^verbatim>\<open>put\<close> appends and
  does not throw.
\<close>

datatype item =
    PString string
  | PShort uInt16
  | PInt uInt32
  | PByte uInt8
  | PByteArray "uInt8 list"
  | PIntArray "uInt32 list"

fun getString :: "item list \<Rightarrow> (string \<times> item list) option" where
  "getString (PString v # rest) = Some (v, rest)"
| "getString _ = None"

fun getShort :: "item list \<Rightarrow> (uInt16 \<times> item list) option" where
  "getShort (PShort v # rest) = Some (v, rest)"
| "getShort _ = None"

fun getInt :: "item list \<Rightarrow> (uInt32 \<times> item list) option" where
  "getInt (PInt v # rest) = Some (v, rest)"
| "getInt _ = None"

fun getByte :: "item list \<Rightarrow> (uInt8 \<times> item list) option" where
  "getByte (PByte v # rest) = Some (v, rest)"
| "getByte _ = None"

fun getByteArray :: "nat \<Rightarrow> item list \<Rightarrow> (uInt8 list \<times> item list) option" where
  "getByteArray n (PByteArray v # rest) = (if length v = n then Some (v, rest) else None)"
| "getByteArray n _ = None"

fun getIntArray :: "nat \<Rightarrow> item list \<Rightarrow> (uInt32 list \<times> item list) option" where
  "getIntArray n (PIntArray v # rest) = (if length v = n then Some (v, rest) else None)"
| "getIntArray n _ = None"

text \<open>
  \<^verbatim>\<open>save\<close> appends the fields to the stream \<open>out\<close>.  Its \<^verbatim>\<open>catch\<close> branch is for
  a \<^verbatim>\<open>put\<close> that throws, which the stream above does not.
\<close>

definition save :: "'f env \<Rightarrow> 'f cart \<Rightarrow> item list \<Rightarrow> bool \<times> item list" where
  "save e s out =
     (True,
      out @
      [PString (name e),
       PShort (myCurrentBank s),
       PByteArray (take 8192 (myBUSRAM s)),
       PShort (myBusOverdriveAddress s),
       PShort (mySTYZeroPageAddress s),
       PShort (myJMPoperandAddress s),
       PInt (mySystemCycles s),
       PInt (fracOut e (myFractionalClocks s)),
       PInt (myARMCycles s),
       PIntArray (take 3 (myMusicCounters s)),
       PIntArray (take 3 (myMusicFrequencies s)),
       PByteArray (take 3 (myMusicWaveformSize s)),
       PByte (myMode s),
       PByte (myFastJumpActive s)])"

text \<open>
  One statement of the \<^verbatim>\<open>try\<close> block of \<^verbatim>\<open>load\<close>: a \<^verbatim>\<open>get\<close> whose value is
  stored into a member.  \<open>Inl\<close> is the exception, with the cartridge as the statements
  before it have left it.
\<close>

definition readField ::
  "(item list \<Rightarrow> ('a \<times> item list) option) \<Rightarrow> ('a \<Rightarrow> 'f cart \<Rightarrow> 'f cart) \<Rightarrow>
   'f cart \<times> item list \<Rightarrow> 'f cart + 'f cart \<times> item list" where
  "readField get upd x =
     (case get (snd x) of
        None \<Rightarrow> Inl (fst x)
      | Some (v, rest) \<Rightarrow> Inr (upd v (fst x), rest))"

fun readFields ::
  "('f cart \<times> item list \<Rightarrow> 'f cart + 'f cart \<times> item list) list \<Rightarrow>
   'f cart \<times> item list \<Rightarrow> 'f cart + 'f cart \<times> item list" where
  "readFields [] x = Inr x"
| "readFields (f # fs) x = (case f x of Inl s \<Rightarrow> Inl s | Inr y \<Rightarrow> readFields fs y)"

definition loadFields ::
  "'f env \<Rightarrow> ('f cart \<times> item list \<Rightarrow> 'f cart + 'f cart \<times> item list) list" where
  "loadFields e =
     [readField getShort (\<lambda>v s. s\<lparr>myCurrentBank := v\<rparr>),
      readField (getByteArray 8192) (\<lambda>v s. s\<lparr>myBUSRAM := v @ drop 8192 (myBUSRAM s)\<rparr>),
      readField getShort (\<lambda>v s. s\<lparr>myBusOverdriveAddress := v\<rparr>),
      readField getShort (\<lambda>v s. s\<lparr>mySTYZeroPageAddress := v\<rparr>),
      readField getShort (\<lambda>v s. s\<lparr>myJMPoperandAddress := v\<rparr>),
      readField getInt (\<lambda>v s. s\<lparr>mySystemCycles := v\<rparr>),
      readField getInt (\<lambda>v s. s\<lparr>myFractionalClocks := fracIn e v\<rparr>),
      readField getInt (\<lambda>v s. s\<lparr>myARMCycles := v\<rparr>),
      readField (getIntArray 3) (\<lambda>v s. s\<lparr>myMusicCounters := v @ drop 3 (myMusicCounters s)\<rparr>),
      readField (getIntArray 3)
        (\<lambda>v s. s\<lparr>myMusicFrequencies := v @ drop 3 (myMusicFrequencies s)\<rparr>),
      readField (getByteArray 3)
        (\<lambda>v s. s\<lparr>myMusicWaveformSize := v @ drop 3 (myMusicWaveformSize s)\<rparr>),
      readField getByte (\<lambda>v s. s\<lparr>myMode := v\<rparr>),
      readField getByte (\<lambda>v s. s\<lparr>myFastJumpActive := v\<rparr>)]"

definition load :: "'f env \<Rightarrow> item list \<Rightarrow> 'f cart \<Rightarrow> bool \<times> 'f cart" where
  "load e inp s =
     (case getString inp of
        None \<Rightarrow> (False, s)
      | Some (tag, rest) \<Rightarrow>
          if tag \<noteq> name e then (False, s)
          else
            (case readFields (loadFields e) (s, rest) of
               Inl s' \<Rightarrow> (False, s')
             | Inr (s', rest') \<Rightarrow> (True, snd (bank e (myCurrentBank s') s'))))"

section \<open>Concrete inputs\<close>

text \<open>
  An environment with 64-byte pages, and cartridges on which the theorems below are
  evaluated.  In \<open>exampleEnv\<close> the accumulator of fractional clocks is a natural number
  of units of \<open>10\<^sup>-\<^sup>8\<close> clocks.
\<close>

definition exampleEnv :: "nat env" where
  "exampleEnv =
     \<lparr>PAGE_SHIFT = 6, name = ''CartridgeBUS'', toClocks = (\<lambda>c f. (0, f)),
      fracOut = (\<lambda>f. of_nat f), fracIn = (\<lambda>n. unat n), fracZero = 0,
      thumbRun = (\<lambda>c s. s)\<rparr>"

definition blankCart :: "nat cart" where
  "blankCart =
     \<lparr>myImage = replicate 32768 0, myBUSRAM = replicate 8192 0, myCurrentBank = 0,
      myStartBank = 0, myBankChanged = False, myBankLocked = False, mySystemCycles = 0,
      myARMCycles = 0, myFractionalClocks = 0, myBusOverdriveAddress = 0,
      mySTYZeroPageAddress = 0, myJMPoperandAddress = 0, myMusicCounters = [0, 0, 0],
      myMusicFrequencies = [0, 0, 0], myMusicWaveformSize = [0, 0, 0], myMode = 0,
      myFastJumpActive = 0, sysCycles = 0, sysPages = Map.empty\<rparr>"

text \<open>The increment of stream 0 is \<open>0x10000\<close>: the byte at \<open>DSxINC + 2\<close> is 1.\<close>

definition incCart :: "nat cart" where
  "incCart = blankCart\<lparr>myBUSRAM := (replicate 8192 0)[0x0722 := 1]\<rparr>"

text \<open>A locked cartridge.\<close>

definition lockedCart :: "nat cart" where
  "lockedCart = lockBank blankCart"

text \<open>
  Address 2 is pending for the bus override; its map entry is 0, so stream 0 is
  used, whose pointer is 0, and the display RAM holds \<open>0xF0\<close> there.
\<close>

definition armedCart :: "nat cart" where
  "armedCart =
     blankCart\<lparr>myBUSRAM := (replicate 8192 0)[0x0800 := 0xF0], myBusOverdriveAddress := 0x02\<rparr>"

text \<open>
  Bank 0 holds \<open>4C 00 00\<close> at address \<open>0x100\<close> and \<open>4C 34 00\<close>, a jump to another
  address, at \<open>0x110\<close>; bus stuffing is on (mode 0), and stream 17 points at display
  bytes \<open>0xAB\<close>, \<open>0xCD\<close>, \<open>0xEF\<close>.
\<close>

definition jumpCart :: "nat cart" where
  "jumpCart =
     blankCart\<lparr>myImage := (replicate 32768 0)[4352 := 0x4C, 4368 := 0x4C, 4369 := 0x34],
               myBUSRAM := (replicate 8192 0)[0x0800 := 0xAB, 0x0801 := 0xCD, 0x0802 := 0xEF]\<rparr>"

text \<open>The same cartridge with a fast jump pending at the address of its \<open>JMP\<close>.\<close>

definition pendingCart :: "nat cart" where
  "pendingCart = jumpCart\<lparr>myFastJumpActive := 2, myJMPoperandAddress := 0x0100\<rparr>"

text \<open>
  Two cartridges agree on every member that \<^verbatim>\<open>peek\<close> reads: all but the page table,
  \<^verbatim>\<open>myBankChanged\<close>, \<^verbatim>\<open>myStartBank\<close> and \<^verbatim>\<open>myARMCycles\<close>.
\<close>

definition sameObservable :: "'f cart \<Rightarrow> 'f cart \<Rightarrow> bool" where
  "sameObservable s t \<longleftrightarrow>
     myImage s = myImage t \<and> myBUSRAM s = myBUSRAM t \<and> myCurrentBank s = myCurrentBank t \<and>
     myBankLocked s = myBankLocked t \<and> mySystemCycles s = mySystemCycles t \<and>
     myFractionalClocks s = myFractionalClocks t \<and>
     myBusOverdriveAddress s = myBusOverdriveAddress t \<and>
     mySTYZeroPageAddress s = mySTYZeroPageAddress t \<and>
     myJMPoperandAddress s = myJMPoperandAddress t \<and>
     myMusicCounters s = myMusicCounters t \<and> myMusicFrequencies s = myMusicFrequencies t \<and>
     myMusicWaveformSize s = myMusicWaveformSize t \<and> myMode s = myMode t \<and>
     myFastJumpActive s = myFastJumpActive t \<and> sysCycles s = sysCycles t"

text \<open>
  A cartridge saved in bank 3, and a locked cartridge whose pages are mapped to
  bank 6.
\<close>

definition savedCart :: "nat cart" where
  "savedCart = snd (bank exampleEnv 3 blankCart)"

definition staleCart :: "nat cart" where
  "staleCart = lockBank (snd (bank exampleEnv 6 blankCart))"

text \<open>
  Two cartridges agree on every member that \<^verbatim>\<open>peek\<close> reads for its result at an
  address other than the amplitude register.
\<close>

definition sameRegisters :: "'f cart \<Rightarrow> 'f cart \<Rightarrow> bool" where
  "sameRegisters s t \<longleftrightarrow>
     myImage s = myImage t \<and> myBUSRAM s = myBUSRAM t \<and> myCurrentBank s = myCurrentBank t \<and>
     myBankLocked s = myBankLocked t \<and> myJMPoperandAddress s = myJMPoperandAddress t \<and>
     myMode s = myMode t \<and> myFastJumpActive s = myFastJumpActive t"


text \<open>
  An environment in which the values of \<^verbatim>\<open>double\<close> are rational numbers and the
  floating-point expressions of \<^verbatim>\<open>updateMusicModeDataFetchers\<close>, \<^verbatim>\<open>save\<close> and
  \<^verbatim>\<open>load\<close> are computed as written, without rounding error.  The conversion of a
  \<^verbatim>\<open>double\<close> to an integer type truncates towards zero; a value outside the range of
  the integer type, for which C++ leaves the conversion undefined, wraps.
\<close>

definition truncate0 :: "rat \<Rightarrow> int" where
  "truncate0 x = (if 0 \<le> x then \<lfloor>x\<rfloor> else - \<lfloor>- x\<rfloor>)"

definition exactEnv :: "rat env" where
  "exactEnv =
     \<lparr>PAGE_SHIFT = 6, name = ''CartridgeBUS'',
      toClocks = (\<lambda>cycles frac.
         let clocks = ((20000 * of_int (sint cycles)) / (119319166666667 / 100000000)) + frac;
             wholeClocks = truncate0 clocks
         in (word_of_int wholeClocks, clocks - of_int wholeClocks)),
      fracOut = (\<lambda>f. word_of_int (truncate0 (f * 100000000))),
      fracIn = (\<lambda>n. of_int (uint n) / 100000000),
      fracZero = 0,
      thumbRun = (\<lambda>c s. s)\<rparr>"

text \<open>
  A cartridge in waveform mode (mode \<open>0xFF\<close>) whose voice 0 advances by one waveform
  byte per clock (frequency \<open>2\<^sup>2\<^sup>7\<close>, waveform size 27) through a waveform that starts
  with the bytes 0, 1.  One system cycle has passed since the data fetchers were
  last updated, and the accumulator holds \<open>117319167115216 / 119319166666667\<close>, about
  \<open>0.9832382373\<close>, which is the fraction of a clock left after \<open>149068677593\<close> cycles at
  \<open>20000 / 1193191.66666667\<close> clocks per cycle (some 35 hours of the system clock).
\<close>

definition tickCart :: "rat cart" where
  "tickCart =
     \<lparr>myImage = replicate 32768 0, myBUSRAM = (replicate 8192 0)[0x0801 := 1],
      myCurrentBank = 0, myStartBank = 0, myBankChanged = False, myBankLocked = False,
      mySystemCycles = 0, myARMCycles = 0,
      myFractionalClocks = 117319167115216 / 119319166666667,
      myBusOverdriveAddress = 0xff, mySTYZeroPageAddress = 0, myJMPoperandAddress = 0,
      myMusicCounters = [0, 0, 0], myMusicFrequencies = [0x08000000, 0, 0],
      myMusicWaveformSize = [27, 27, 27], myMode = 0xFF, myFastJumpActive = 0,
      sysCycles = 1, sysPages = Map.empty\<rparr>"

section \<open>Auxiliary facts\<close>

lemma wellFormed_blankCart: "wellFormed blankCart"
  by (simp add: wellFormed_def blankCart_def)

lemma wellFormed_incCart: "wellFormed incCart"
  by (simp add: incCart_def wellFormed_def blankCart_def)

lemma ff_mask: "(0xff :: uInt32) = mask 8"
  by (simp add: mask_eq_exp_minus_1)

lemma byte0: "(ucast (ucast ((v::uInt32) AND 0xff) :: uInt8) :: uInt32) = take_bit 8 v"
  unfolding ff_mask by (rule bit_word_eqI) (auto simp: bit_simps)

lemma byteN:
  "(ucast (ucast (drop_bit n (v::uInt32) AND 0xff) :: uInt8) :: uInt32) = take_bit 8 (drop_bit n v)"
  unfolding ff_mask by (rule bit_word_eqI) (auto simp: bit_simps)

lemma le32_word:
  "take_bit 8 (v::uInt32) + push_bit 8 (take_bit 8 (drop_bit 8 v))
     + push_bit 16 (take_bit 8 (drop_bit 16 v))
     + push_bit 24 (take_bit 8 (drop_bit 24 v)) = v"
proof -
  have a: "take_bit 8 v + push_bit 8 (take_bit 8 (drop_bit 8 v)) = take_bit 16 v"
    by (subst disjunctive_add_eq_or; rule bit_word_eqI) (auto simp: bit_simps)
  have b: "take_bit 16 v + push_bit 16 (take_bit 8 (drop_bit 16 v)) = take_bit 24 v"
    by (subst disjunctive_add_eq_or; rule bit_word_eqI) (auto simp: bit_simps)
  have c: "take_bit 24 v + push_bit 24 (take_bit 8 (drop_bit 24 v)) = v"
    by (subst disjunctive_add_eq_or; rule bit_word_eqI) (auto simp: bit_simps)
  show ?thesis by (simp only: a b c)
qed

text \<open>Storing four bytes and loading them again gives the value back.\<close>

lemma getLE32_setLE32:
  "b + 3 < length ram \<Longrightarrow> getLE32 (setLE32 ram b v) b = v"
  by (simp add: getLE32_def setLE32_def byte0 byteN le32_word)

lemma getLE32_setLE32_other:
  "b' + 3 < b \<or> b + 3 < b' \<Longrightarrow> getLE32 (setLE32 ram b v) b' = getLE32 ram b'"
  by (auto simp add: getLE32_def setLE32_def)

lemma nth_setLE32_other:
  "i < b \<or> b + 3 < i \<Longrightarrow> setLE32 ram b v ! i = ram ! i"
  by (auto simp add: setLE32_def)

lemma length_setLE32: "length (setLE32 ram b v) = length ram"
  by (simp add: setLE32_def)

lemma unat_index: "unat (i :: uInt8) < 256"
  using unsigned_less [of i, where ?'a = nat] by simp

lemma ucast16: "(ucast (ucast (x :: uInt32) :: uInt16) :: uInt32) = take_bit 16 x"
  by (rule bit_word_eqI) (auto simp: bit_simps)

lemma bank_mode: "myMode (snd (bank e b s)) = myMode s"
  by (simp add: bank_def Let_def)

lemma readFromDatastream_value:
  "fst (readFromDatastream i s) =
     myBUSRAM s ! (DSRAM + unat (drop_bit 20 (getDatastreamPointer s i)))"
  by (simp add: readFromDatastream_def Let_def myDisplayImage_def)

lemma readFromDatastream_pointer:
  assumes "wellFormed s"
  shows "getDatastreamPointer (snd (readFromDatastream i s)) i =
           getDatastreamPointer s i + push_bit 12 (take_bit 16 (getDatastreamIncrement s i))"
proof -
  have "DSxPTR + unat i * 4 + 3 < length (myBUSRAM s)"
    using assms unat_index [of i] by (simp add: wellFormed_def DSxPTR_def)
  then show ?thesis
    by (simp add: readFromDatastream_def Let_def getDatastreamPointer_def
          setDatastreamPointer_def getLE32_setLE32 ucast16)
qed

lemma incCart_inc: "getDatastreamIncrement incCart 0 = 0x10000"
  by (simp add: incCart_def getDatastreamIncrement_def getLE32_def DSxINC_def)

lemma incCart_ptr: "getDatastreamPointer incCart 0 = 0"
  by (simp add: incCart_def getDatastreamPointer_def getLE32_def DSxPTR_def)

lemma unat_drop20: "unat (drop_bit 20 (p :: uInt32)) < 4096"
proof -
  have "unat p < 2 ^ 32" using unsigned_less [of p, where ?'a = nat] by simp
  then have "unat p div 2 ^ 20 < 4096" by simp
  then show ?thesis by (simp add: drop_bit_eq_div unat_div)
qed

lemma unat_nibble: "unat (ucast ((x :: uInt32) AND 0x0f) :: uInt8) < 16"
proof -
  have "x AND 0x0f \<le> 0x0f" by (rule word_and_le1)
  then have "unat (x AND 0x0f) \<le> 15" by (simp add: word_le_nat_alt)
  then show ?thesis by (simp add: unsigned_ucast_eq take_bit_eq_mod)
qed

lemma le6_cases:
  assumes "(n :: uInt16) \<le> 6"
  shows "n = 0 \<or> n = 1 \<or> n = 2 \<or> n = 3 \<or> n = 4 \<or> n = 5 \<or> n = 6"
proof -
  from assms have "unat n \<le> 6" by (simp add: word_le_nat_alt)
  then have "unat n = 0 \<or> unat n = 1 \<or> unat n = 2 \<or> unat n = 3 \<or> unat n = 4
      \<or> unat n = 5 \<or> unat n = 6"
    by arith
  then show ?thesis by (auto simp: word_unat_eq_iff)
qed

text \<open>A write to one of the seven bank hotspots calls \<^verbatim>\<open>bank\<close> and returns false.\<close>

lemma poke_bank_hotspot:
  assumes "(n :: uInt16) \<le> 6"
  shows "poke e (0x1FF5 + n) v s = (False, NoDevice, snd (bank e n s))"
  using le6_cases [OF assms] by (auto simp: poke_def Let_def)

lemma patch_low:
  "address AND 0x0FFF < 0x0040 \<Longrightarrow> patch address v s = Some (False, s)"
  by (simp add: patch_def Let_def not_le [symmetric])

lemma and_fff_idem: "(address :: uInt16) AND 0x0FFF AND 0x0FFF = address AND 0x0FFF"
  by (simp add: and.assoc)

lemma patch_high:
  assumes "0x0040 \<le> address AND 0x0FFF" and "unat (myCurrentBank s) < 7"
  shows "patch address v s =
     Some (True,
           s\<lparr>myImage := (myImage s)[4096 + (unat (myCurrentBank s) * 4096
                                         + unat (address AND 0x0FFF)) := v],
             myBankChanged := True\<rparr>)"
proof -
  have "address AND 0x0FFF \<le> 0x0FFF" by (rule word_and_le1)
  then have "unat (address AND 0x0FFF) \<le> 0x0FFF" by (simp add: word_le_nat_alt)
  with assms show ?thesis by (simp add: patch_def Let_def and_fff_idem)
qed

lemma writeToDatastream_ram:
  "myBUSRAM (writeToDatastream i v s) =
     setLE32 ((myBUSRAM s)[DSRAM + unat (drop_bit 20 (getDatastreamPointer s i)) := v])
       (DSxPTR + unat i * 4) (getDatastreamPointer s i + 0x100000)"
  by (simp add: writeToDatastream_def Let_def setDatastreamPointer_def)

lemma writeToDatastream_stored:
  assumes "wellFormed s" and "DSxPTR + unat i * 4 + 3 < DSRAM"
  shows "myBUSRAM (writeToDatastream i v s)
           ! (DSRAM + unat (drop_bit 20 (getDatastreamPointer s i))) = v"
proof -
  have "DSRAM + unat (drop_bit 20 (getDatastreamPointer s i)) < length (myBUSRAM s)"
    using assms(1) unat_drop20 [of "getDatastreamPointer s i"]
    by (simp add: wellFormed_def DSRAM_def)
  with assms(2) show ?thesis
    by (simp add: writeToDatastream_ram nth_setLE32_other)
qed

lemma writeToDatastream_pointer:
  assumes "wellFormed s" and "DSxPTR + unat i * 4 + 3 < DSRAM"
  shows "getDatastreamPointer (writeToDatastream i v s) i = getDatastreamPointer s i + 0x100000"
proof -
  have "DSxPTR + unat i * 4 + 3 < length (myBUSRAM s)"
    using assms by (simp add: wellFormed_def DSRAM_def)
  then show ?thesis
    by (simp add: getDatastreamPointer_def [of "writeToDatastream i v s"]
          writeToDatastream_ram getLE32_setLE32)
qed

lemma poke_DSWRITE: "poke e 0x1FF0 v s = (False, NoDevice, writeToDatastream COMMSTREAM v s)"
  by (simp add: poke_def Let_def)

lemma blank_write_ptr0:
  "getDatastreamPointer (writeToDatastream COMMSTREAM 0x5A blankCart) 0 = 0"
  by (simp add: getDatastreamPointer_def writeToDatastream_ram getLE32_setLE32_other
        COMMSTREAM_def DSxPTR_def DSRAM_def blankCart_def getLE32_def nth_setLE32_other)

lemma blank_ptr16: "getDatastreamPointer blankCart COMMSTREAM = 0"
  by (simp add: getDatastreamPointer_def COMMSTREAM_def DSxPTR_def blankCart_def getLE32_def)

lemma lockedCart_locked: "bankLocked lockedCart"
  by (simp add: lockedCart_def lockBank_def bankLocked_def)

lemma lockedCart_bank: "unat (myCurrentBank lockedCart) < 7"
  by (simp add: lockedCart_def lockBank_def blankCart_def)

lemma and_ff8: "(v :: uInt8) AND 0xff = v"
proof -
  have e: "(0xff :: uInt8) = - 1" by simp
  show ?thesis unfolding e by simp
qed

lemma busOverdrive_idle:
  "address \<noteq> myBusOverdriveAddress s \<or> 0x24 < (ucast (address AND 0x7f) :: uInt8) \<Longrightarrow>
   busOverdrive address s = (0xff, s\<lparr>myBusOverdriveAddress := 0xff\<rparr>)"
  by (auto simp: busOverdrive_def Let_def not_le [symmetric])

lemma busOverdrive_armed:
  assumes "address = myBusOverdriveAddress s" and "(ucast (address AND 0x7f) :: uInt8) \<le> 0x24"
  shows "busOverdrive address s =
     (fst (readFromDatastream (ucast (getAddressMap s (ucast (address AND 0x7f)) AND 0x0f)) s),
      (setAddressMap (ucast (address AND 0x7f))
         (drop_bit 4 (getAddressMap s (ucast (address AND 0x7f)))
            OR push_bit 28 (ucast (ucast (getAddressMap s (ucast (address AND 0x7f)) AND 0x0f) :: uInt8)))
         (snd (readFromDatastream (ucast (getAddressMap s (ucast (address AND 0x7f)) AND 0x0f)) s)))
       \<lparr>myBusOverdriveAddress := 0xff\<rparr>)"
  using assms by (simp add: busOverdrive_def Let_def case_prod_beta)

lemma length_read: "length (myBUSRAM (snd (readFromDatastream d s))) = length (myBUSRAM s)"
  by (simp add: readFromDatastream_def Let_def setDatastreamPointer_def length_setLE32)

lemma map_after_overdrive:
  assumes "wellFormed s"
  shows "getAddressMap ((setAddressMap m w (snd (readFromDatastream d s)))\<lparr>myBusOverdriveAddress := a\<rparr>) m = w"
proof -
  have "DSMAPS + unat m * 4 + 3 < length (myBUSRAM (snd (readFromDatastream d s)))"
    using assms unat_index [of m] by (simp add: length_read wellFormed_def DSMAPS_def)
  then show ?thesis
    by (simp add: getAddressMap_def setAddressMap_def getLE32_setLE32)
qed

lemma pointer_after_overdrive:
  assumes "wellFormed s" and "unat d < 16"
  shows "getDatastreamPointer ((setAddressMap m w (snd (readFromDatastream d s)))\<lparr>myBusOverdriveAddress := a\<rparr>) d
           = getDatastreamPointer s d + push_bit 12 (take_bit 16 (getDatastreamIncrement s d))"
proof -
  have "DSxPTR + unat d * 4 + 3 < DSMAPS + unat m * 4"
    using assms(2) by (simp add: DSxPTR_def DSMAPS_def)
  then have "getDatastreamPointer ((setAddressMap m w (snd (readFromDatastream d s)))\<lparr>myBusOverdriveAddress := a\<rparr>) d
      = getDatastreamPointer (snd (readFromDatastream d s)) d"
    by (simp add: getDatastreamPointer_def setAddressMap_def getLE32_setLE32_other)
  then show ?thesis using assms(1) by (simp add: readFromDatastream_pointer)
qed

lemma poke_low:
  assumes "address AND 0x1000 = 0"
  shows "poke e address v s =
     (False,
      (if (address AND 0x3ff) AND 0x80 \<noteq> 0 then ToM6532 address (v AND fst (busOverdrive address s))
       else if (address AND 0x3ff) AND 0x200 = 0 then ToTIA address (v AND fst (busOverdrive address s))
       else NoDevice),
      snd (busOverdrive address s))"
  using assms by (simp add: poke_def Let_def case_prod_beta)

lemma busOverdrive_clears: "myBusOverdriveAddress (snd (busOverdrive address s)) = 0xff"
  by (simp add: busOverdrive_def Let_def case_prod_beta)

lemma wellFormed_armedCart: "wellFormed armedCart"
  by (simp add: armedCart_def wellFormed_def blankCart_def)

lemma armedCart_map: "getAddressMap armedCart 2 = 0"
  by (simp add: armedCart_def getAddressMap_def getLE32_def DSMAPS_def blankCart_def)

lemma armedCart_ptr: "getDatastreamPointer armedCart 0 = 0"
  by (simp add: armedCart_def getDatastreamPointer_def getLE32_def DSxPTR_def blankCart_def)

lemma armedCart_byte: "fst (readFromDatastream 0 armedCart) = 0xF0"
  by (simp add: readFromDatastream_value armedCart_ptr) (simp add: armedCart_def DSRAM_def)

lemma armedCart_addr: "myBusOverdriveAddress armedCart = 0x02"
  by (simp add: armedCart_def)

lemma armedCart_overdrive: "fst (busOverdrive 0x02 armedCart) = 0xF0"
  by (simp add: busOverdrive_armed armedCart_addr armedCart_map armedCart_byte)

lemma unat_and_fff: "unat ((x :: uInt16) AND 0x0FFF) = unat x mod 4096"
proof -
  have m: "(0x0FFF :: uInt16) = mask 12" by (simp add: mask_eq_exp_minus_1)
  have a: "x AND 0x0FFF = take_bit 12 x" unfolding m by (simp only: take_bit_eq_mask)
  have "unat (take_bit 12 x) = take_bit 12 (unat x)"
    by (simp only: unsigned_take_bit_eq)
  then show ?thesis unfolding a by (simp add: take_bit_eq_mod)
qed

lemma bit12: "((x :: uInt16) AND 0x1000 = 0) \<longleftrightarrow> even (unat x div 4096)"
proof -
  have p: "(0x1000 :: uInt16) = 2 ^ 12" by simp
  have "x AND 0x1000 = 0 \<longleftrightarrow> \<not> bit x 12"
    unfolding p by (simp only: and_exp_eq_0_iff_not_bit)
  also have "bit x 12 \<longleftrightarrow> bit (unat x) 12" by (simp add: bit_unsigned_iff)
  also have "\<dots> \<longleftrightarrow> odd (unat x div 4096)" by (simp add: bit_iff_odd)
  finally show ?thesis by simp
qed

lemma split4096:
  assumes "unat ((x :: uInt16) AND 0x0FFF) + k < 4096"
  shows "unat x + k < 65536"
    and "(unat x + k) mod 4096 = unat x mod 4096 + k"
    and "(unat x + k) div 4096 = unat x div 4096"
proof -
  define q where "q = unat x div 4096"
  define r where "r = unat x mod 4096"
  have x: "unat x = 4096 * q + r" by (simp add: q_def r_def)
  have "unat x < 65536" using unsigned_less [of x, where ?'a = nat] by simp
  then have q: "q < 16" by (simp add: q_def div_less_iff_less_mult)
  have r: "r + k < 4096" using assms by (simp add: unat_and_fff r_def)
  show "unat x + k < 65536" using x q r by linarith
  have e: "unat x + k = (r + k) + q * 4096" using x by simp
  show "(unat x + k) mod 4096 = unat x mod 4096 + k"
    unfolding e using r by (simp add: r_def)
  show "(unat x + k) div 4096 = unat x div 4096"
    unfolding e using r by (simp add: q_def)
qed

lemma next_address:
  assumes "unat ((x :: uInt16) AND 0x0FFF) + k < 4096"
  shows "(x + of_nat k) AND 0x0FFF = (x AND 0x0FFF) + of_nat k"
    and "((x + of_nat k) AND 0x1000 = 0) = (x AND 0x1000 = 0)"
    and "unat ((x + of_nat k) AND 0x0FFF) = unat (x AND 0x0FFF) + k"
proof -
  note s = split4096 [OF assms]
  have k: "k < 65536" using assms by simp
  have u: "unat (x + of_nat k) = unat x + k"
    using s(1) k by (simp add: unat_word_ariths unat_of_nat)
  show 3: "unat ((x + of_nat k) AND 0x0FFF) = unat (x AND 0x0FFF) + k"
    unfolding unat_and_fff u by (rule s(2))
  have "unat (x AND 0x0FFF) + k < 65536" using assms by simp
  then have "unat ((x AND 0x0FFF) + of_nat k) = unat (x AND 0x0FFF) + k"
    using k by (simp add: unat_word_ariths unat_of_nat)
  with 3 show "(x + of_nat k) AND 0x0FFF = (x AND 0x0FFF) + of_nat k"
    by (simp add: word_unat_eq_iff)
  show "((x + of_nat k) AND 0x1000 = 0) = (x AND 0x1000 = 0)"
    unfolding bit12 u s(3) ..
qed

text \<open>Detector 1: an armed fast jump at the operand address wins over everything else.\<close>

lemma peek_fast_jump:
  assumes "address AND 0x1000 \<noteq> 0"
    and "myProgramImage s (unat (myCurrentBank s) * 4096 + unat (address AND 0x0FFF)) = Some b"
    and "\<not> bankLocked s"
    and "myFastJumpActive s \<noteq> 0" and "myJMPoperandAddress s = address AND 0x0FFF"
  shows "peek e address s =
     Some (Value (myBUSRAM s ! (DSRAM + unat (drop_bit 20 (getDatastreamPointer s JUMPSTREAM)))),
           setDatastreamPointer JUMPSTREAM (getDatastreamPointer s JUMPSTREAM + 0x100000)
             (s\<lparr>myFastJumpActive := myFastJumpActive s - 1,
                myJMPoperandAddress := myJMPoperandAddress s + 1\<rparr>))"
  using assms
  by (simp add: peek_def Let_def myDisplayImage_def getDatastreamPointer_def)

text \<open>Detector 2: the opcode pattern arms the fast jump.\<close>

lemma peek_arm:
  assumes "address AND 0x1000 \<noteq> 0" and "\<not> bankLocked s" and "BUS_STUFF_ON s"
    and "myProgramImage s (unat (myCurrentBank s) * 4096 + unat (address AND 0x0FFF)) = Some 0x4C"
    and "myProgramImage s (unat (myCurrentBank s) * 4096 + unat (address AND 0x0FFF) + 1) = Some 0"
    and "myProgramImage s (unat (myCurrentBank s) * 4096 + unat (address AND 0x0FFF) + 2) = Some 0"
    and "\<not> (myFastJumpActive s \<noteq> 0 \<and> myJMPoperandAddress s = address AND 0x0FFF)"
  shows "peek e address s =
     Some (Value 0x4C, s\<lparr>myFastJumpActive := 2, myJMPoperandAddress := (address AND 0x0FFF) + 1\<rparr>)"
  using assms
  by (auto simp add: peek_def Let_def fastJumpOpcode_def)

lemma JUMPSTREAM_slot: "DSxPTR + unat JUMPSTREAM * 4 + 3 < DSRAM"
  by (simp add: DSxPTR_def JUMPSTREAM_def DSRAM_def)

lemma one_of_nat: "(1 :: uInt16) = of_nat 1" and two_of_nat: "(2 :: uInt16) = of_nat 2"
  by simp_all

lemma jumpCart_facts:
  "wellFormed jumpCart" "\<not> bankLocked jumpCart" "BUS_STUFF_ON jumpCart"
  "unat (myCurrentBank jumpCart) = 0"
  "myFastJumpActive jumpCart = 0"
  by (simp_all add: jumpCart_def blankCart_def wellFormed_def bankLocked_def BUS_STUFF_ON_def)

lemma jumpCart_rom:
  "myProgramImage jumpCart 0x100 = Some 0x4C"
  "myProgramImage jumpCart 0x101 = Some 0"
  "myProgramImage jumpCart 0x102 = Some 0"
  by (simp_all add: jumpCart_def blankCart_def myProgramImage_def)

lemma jumpCart_stream:
  "getDatastreamPointer jumpCart JUMPSTREAM = 0"
  "myDisplayImage jumpCart 0 = 0xAB"
  "myDisplayImage jumpCart (Suc 0) = 0xCD"
  by (simp_all add: jumpCart_def blankCart_def getDatastreamPointer_def getLE32_def
        JUMPSTREAM_def DSxPTR_def myDisplayImage_def DSRAM_def)

lemma pendingCart_facts:
  "\<not> bankLocked pendingCart" "unat (myCurrentBank pendingCart) = 0"
  "myFastJumpActive pendingCart \<noteq> 0" "myJMPoperandAddress pendingCart = 0x0100"
  "myProgramImage pendingCart 0x100 = Some 0x4C"
  "getDatastreamPointer pendingCart JUMPSTREAM = 0"
  "myDisplayImage pendingCart 0 = 0xAB"
  by (simp_all add: pendingCart_def jumpCart_def blankCart_def bankLocked_def
        myProgramImage_def getDatastreamPointer_def getLE32_def
        JUMPSTREAM_def DSxPTR_def myDisplayImage_def DSRAM_def)

lemma load_save:
  assumes "wellFormed s" and "wellFormed t"
  shows "load e (snd (save e s [])) t =
     (True,
      snd (bank e (myCurrentBank s)
        (t\<lparr>myCurrentBank := myCurrentBank s,
           myBUSRAM := myBUSRAM s,
           myBusOverdriveAddress := myBusOverdriveAddress s,
           mySTYZeroPageAddress := mySTYZeroPageAddress s,
           myJMPoperandAddress := myJMPoperandAddress s,
           mySystemCycles := mySystemCycles s,
           myFractionalClocks := fracIn e (fracOut e (myFractionalClocks s)),
           myARMCycles := myARMCycles s,
           myMusicCounters := myMusicCounters s,
           myMusicFrequencies := myMusicFrequencies s,
           myMusicWaveformSize := myMusicWaveformSize s,
           myMode := myMode s,
           myFastJumpActive := myFastJumpActive s\<rparr>)))"
  using assms
  by (simp add: load_def save_def loadFields_def readField_def wellFormed_def)

lemma amplitude_cong:
  assumes "myImage s = myImage t" "myBUSRAM s = myBUSRAM t" "myMusicCounters s = myMusicCounters t"
    "myMusicWaveformSize s = myMusicWaveformSize t" "myMode s = myMode t"
  shows "amplitude s = amplitude t"
proof -
  have "waveByte s x = waveByte t x" for x
    using assms by (simp add: waveByte_def Let_def getWaveform_def displayByte_def)
  then show ?thesis
    using assms
    by (simp add: amplitude_def Let_def getSample_def DIGITAL_AUDIO_ON_def
          cong: option.case_cong if_cong)
qed

lemma sameObservable_update:
  assumes "sameObservable s t"
  shows "sameObservable (updateMusicModeDataFetchers e s) (updateMusicModeDataFetchers e t)"
  using assms
  by (simp add: sameObservable_def updateMusicModeDataFetchers_def Let_def case_prod_beta)

lemma peekSwitch_value:
  assumes "sameObservable s t"
  shows "map_option fst (peekSwitch e a v s) = map_option fst (peekSwitch e a v t)"
proof -
  have u: "sameObservable (updateMusicModeDataFetchers e s) (updateMusicModeDataFetchers e t)"
    by (rule sameObservable_update [OF assms])
  have am: "amplitude (updateMusicModeDataFetchers e s) = amplitude (updateMusicModeDataFetchers e t)"
    using u by (intro amplitude_cong) (simp_all add: sameObservable_def)
  have rd: "fst (readFromDatastream COMMSTREAM s) = fst (readFromDatastream COMMSTREAM t)"
    using assms by (simp add: readFromDatastream_value getDatastreamPointer_def sameObservable_def)
  show ?thesis
    by (simp add: peekSwitch_def Let_def am rd split: option.splits)
qed

lemma peek_normal:
  assumes "a AND 0x1000 \<noteq> 0"
    and "myProgramImage s (unat (myCurrentBank s) * 4096 + unat (a AND 0x0FFF)) = Some pv"
    and "\<not> bankLocked s"
    and "\<not> (myFastJumpActive s \<noteq> 0 \<and> myJMPoperandAddress s = a AND 0x0FFF)"
    and "fastJumpOpcode s (a AND 0x0FFF) pv = Some False"
  shows "map_option fst (peek e a s) =
     map_option (\<lambda>r. Value (fst r))
       (peekSwitch e (a AND 0x0FFF) pv
          ((if BUS_STUFF_ON s \<and> mySTYZeroPageAddress s = a AND 0x0FFF
            then s\<lparr>myJMPoperandAddress := 0, myBusOverdriveAddress := ucast pv\<rparr>
            else s\<lparr>myJMPoperandAddress := 0\<rparr>)\<lparr>mySTYZeroPageAddress := 0\<rparr>))"
proof -
  have c: "(myFastJumpActive s \<noteq> 0 \<and> myJMPoperandAddress s = a AND 0x0FFF) = False"
    using assms(4) by blast
  have p: "peek e a s =
     (case peekSwitch e (a AND 0x0FFF) pv
          ((if BUS_STUFF_ON s \<and> mySTYZeroPageAddress s = a AND 0x0FFF
            then s\<lparr>myJMPoperandAddress := 0, myBusOverdriveAddress := ucast pv\<rparr>
            else s\<lparr>myJMPoperandAddress := 0\<rparr>)\<lparr>mySTYZeroPageAddress := 0\<rparr>) of
        None \<Rightarrow> None
      | Some (peekvalue, s4) \<Rightarrow>
          Some (Value peekvalue,
                if BUS_STUFF_ON s4 \<and> peekvalue = 0x84
                then s4\<lparr>mySTYZeroPageAddress := (a AND 0x0FFF) + 1\<rparr> else s4))"
    unfolding peek_def Let_def
    using assms(1,2,3,5)
    by (simp add: BUS_STUFF_ON_def c split del: if_split)
  show ?thesis unfolding p by (simp split: option.splits prod.splits)
qed

lemma peek_value:
  assumes so: "sameObservable s t"
  shows "map_option fst (peek e a s) = map_option fst (peek e a t)"
proof (cases "a AND 0x1000 = 0")
  case True
  then show ?thesis by (simp add: peek_def Let_def)
next
  case hi: False
  have pi: "myProgramImage s i = myProgramImage t i" for i
    using so by (simp add: myProgramImage_def sameObservable_def)
  have fj: "fastJumpOpcode s x v = fastJumpOpcode t x v" for x v
    using so
    by (simp add: fastJumpOpcode_def pi BUS_STUFF_ON_def sameObservable_def
          cong: option.case_cong if_cong)
  have f: "myCurrentBank s = myCurrentBank t" "bankLocked s = bankLocked t"
    "myFastJumpActive s = myFastJumpActive t" "myJMPoperandAddress s = myJMPoperandAddress t"
    "myBUSRAM s = myBUSRAM t" "BUS_STUFF_ON s = BUS_STUFF_ON t"
    "mySTYZeroPageAddress s = mySTYZeroPageAddress t"
    using so by (simp_all add: sameObservable_def bankLocked_def BUS_STUFF_ON_def)
  show ?thesis
  proof (cases "myProgramImage t (unat (myCurrentBank t) * 4096 + unat (a AND 0x0FFF))")
    case None
    then show ?thesis using hi by (simp add: peek_def Let_def pi f)
  next
    case (Some pv)
    note rt = Some
    have rs: "myProgramImage s (unat (myCurrentBank s) * 4096 + unat (a AND 0x0FFF)) = Some pv"
      using rt by (simp add: pi f)
    show ?thesis
    proof (cases "bankLocked t")
      case True
      then show ?thesis using hi rt rs by (simp add: peek_def Let_def f)
    next
      case ul: False
      then have uls: "\<not> bankLocked s" by (simp add: f)
      show ?thesis
      proof (cases "myFastJumpActive t \<noteq> 0 \<and> myJMPoperandAddress t = a AND 0x0FFF")
        case True
        then have d: "myFastJumpActive t \<noteq> 0" "myJMPoperandAddress t = a AND 0x0FFF"
          and ds: "myFastJumpActive s \<noteq> 0" "myJMPoperandAddress s = a AND 0x0FFF"
          by (simp_all add: f)
        show ?thesis
          unfolding peek_fast_jump [OF hi rs uls ds] peek_fast_jump [OF hi rt ul d]
          by (simp add: getDatastreamPointer_def f)
      next
        case nd: False
        then have nds: "\<not> (myFastJumpActive s \<noteq> 0 \<and> myJMPoperandAddress s = a AND 0x0FFF)"
          by (simp add: f)
        have ct: "(myFastJumpActive t \<noteq> 0 \<and> myJMPoperandAddress t = a AND 0x0FFF) = False"
          using nd by blast
        have cs: "(myFastJumpActive s \<noteq> 0 \<and> myJMPoperandAddress s = a AND 0x0FFF) = False"
          using nds by blast
        show ?thesis
        proof (cases "fastJumpOpcode t (a AND 0x0FFF) pv")
          case None
          then show ?thesis using hi rt rs ul uls
            by (simp add: peek_def Let_def fj cs ct)
        next
          case (Some b)
          show ?thesis
          proof (cases b)
            case True
            then show ?thesis using hi rt rs ul uls Some
              by (simp add: peek_def Let_def fj cs ct)
          next
            case False
            with Some have ft: "fastJumpOpcode t (a AND 0x0FFF) pv = Some False" by simp
            then have fs: "fastJumpOpcode s (a AND 0x0FFF) pv = Some False" by (simp add: fj)
            have "sameObservable
                ((if BUS_STUFF_ON s \<and> mySTYZeroPageAddress s = a AND 0x0FFF
                  then s\<lparr>myJMPoperandAddress := 0, myBusOverdriveAddress := ucast pv\<rparr>
                  else s\<lparr>myJMPoperandAddress := 0\<rparr>)\<lparr>mySTYZeroPageAddress := 0\<rparr>)
                ((if BUS_STUFF_ON t \<and> mySTYZeroPageAddress t = a AND 0x0FFF
                  then t\<lparr>myJMPoperandAddress := 0, myBusOverdriveAddress := ucast pv\<rparr>
                  else t\<lparr>myJMPoperandAddress := 0\<rparr>)\<lparr>mySTYZeroPageAddress := 0\<rparr>)"
              using so by (simp add: sameObservable_def f)
            from peekSwitch_value [OF this, of e "a AND 0x0FFF" pv]
            have "map_option Value (map_option fst (peekSwitch e (a AND 0x0FFF) pv
                ((if BUS_STUFF_ON s \<and> mySTYZeroPageAddress s = a AND 0x0FFF
                  then s\<lparr>myJMPoperandAddress := 0, myBusOverdriveAddress := ucast pv\<rparr>
                  else s\<lparr>myJMPoperandAddress := 0\<rparr>)\<lparr>mySTYZeroPageAddress := 0\<rparr>)))
              = map_option Value (map_option fst (peekSwitch e (a AND 0x0FFF) pv
                ((if BUS_STUFF_ON t \<and> mySTYZeroPageAddress t = a AND 0x0FFF
                  then t\<lparr>myJMPoperandAddress := 0, myBusOverdriveAddress := ucast pv\<rparr>
                  else t\<lparr>myJMPoperandAddress := 0\<rparr>)\<lparr>mySTYZeroPageAddress := 0\<rparr>)))"
              by (rule arg_cong)
            then show ?thesis
              unfolding peek_normal [OF hi rs uls nds fs] peek_normal [OF hi rt ul nd ft]
              by (simp only: option.map_comp o_def)
          qed
        qed
      qed
    qed
  qed
qed

lemma div_step: "((address :: nat) + 2 ^ ps) div 2 ^ ps = address div 2 ^ ps + 1"
  using div_add_self2 [of "2 ^ ps" address] by simp

lemma mapPages_below:
  "p < address div 2 ^ ps \<Longrightarrow> mapPages ps off address pg p = pg p"
proof (induction ps off address pg rule: mapPages.induct)
  case (1 ps off address pg)
  show ?case
  proof (cases "address < 0x2000")
    case True
    have "p < (address + 2 ^ ps) div 2 ^ ps" using "1.prems" by (simp only: div_step)
    from "1.IH" [OF True this]
    have "mapPages ps off (address + 2 ^ ps)
            (pg(address div 2 ^ ps \<mapsto> off + address mod 0x1000)) p
          = (pg(address div 2 ^ ps \<mapsto> off + address mod 0x1000)) p" .
    also have "\<dots> = pg p" using "1.prems" by simp
    finally have r: "mapPages ps off (address + 2 ^ ps)
            (pg(address div 2 ^ ps \<mapsto> off + address mod 0x1000)) p = pg p" .
    show ?thesis by (subst mapPages.simps) (simp only: True if_True r)
  next
    case False
    then show ?thesis by (subst mapPages.simps) simp
  qed
qed

lemma mapPages_first:
  assumes "address < 0x2000"
  shows "mapPages ps off address pg (address div 2 ^ ps) = Some (off + address mod 0x1000)"
proof -
  have "address div 2 ^ ps < (address + 2 ^ ps) div 2 ^ ps" by (simp only: div_step)
  from mapPages_below [OF this]
  have "mapPages ps off (address + 2 ^ ps)
          (pg(address div 2 ^ ps \<mapsto> off + address mod 0x1000)) (address div 2 ^ ps)
        = (pg(address div 2 ^ ps \<mapsto> off + address mod 0x1000)) (address div 2 ^ ps)" .
  then have r: "mapPages ps off (address + 2 ^ ps)
          (pg(address div 2 ^ ps \<mapsto> off + address mod 0x1000)) (address div 2 ^ ps)
        = Some (off + address mod 0x1000)" by simp
  show ?thesis by (subst mapPages.simps) (simp only: assms if_True r)
qed

lemma bank_wellFormed: "wellFormed s \<Longrightarrow> wellFormed (snd (bank e b s))"
  by (simp add: bank_def Let_def wellFormed_def)

lemma wellFormed_savedCart: "wellFormed savedCart"
  unfolding savedCart_def by (rule bank_wellFormed [OF wellFormed_blankCart])

lemma wellFormed_staleCart: "wellFormed staleCart"
  using bank_wellFormed [OF wellFormed_blankCart, of exampleEnv 6]
  by (simp add: staleCart_def lockBank_def wellFormed_def)

lemma savedCart_facts:
  "myCurrentBank savedCart = 3" "\<not> bankLocked savedCart"
  "sysPages savedCart 65 = Some 0x3040"
  "myImage savedCart = myImage blankCart" "sysCycles savedCart = sysCycles blankCart"
  "myFractionalClocks savedCart = 0"
proof -
  have "mapPages 6 0x3000 0x1040 Map.empty (0x1040 div 2 ^ 6) = Some (0x3000 + 0x1040 mod 0x1000)"
    by (rule mapPages_first) simp
  then show "sysPages savedCart 65 = Some 0x3040"
    by (simp add: savedCart_def bank_def Let_def bankLocked_def blankCart_def exampleEnv_def)
qed (simp_all add: savedCart_def bank_def Let_def bankLocked_def blankCart_def)

lemma staleCart_facts:
  "myCurrentBank staleCart = 6" "bankLocked staleCart"
  "sysPages staleCart 65 = Some 0x6040"
proof -
  have "mapPages 6 0x6000 0x1040 Map.empty (0x1040 div 2 ^ 6) = Some (0x6000 + 0x1040 mod 0x1000)"
    by (rule mapPages_first) simp
  then show "sysPages staleCart 65 = Some 0x6040"
    by (simp add: staleCart_def lockBank_def bank_def Let_def bankLocked_def blankCart_def
          exampleEnv_def)
qed (simp_all add: staleCart_def lockBank_def bank_def Let_def bankLocked_def blankCart_def)


lemma peek_decoded:
  assumes "ad AND 0x1000 \<noteq> 0"
    and "myProgramImage u (unat (myCurrentBank u) * 4096 + unat (ad AND 0x0FFF)) = Some pv"
    and "\<not> bankLocked u" and "myFastJumpActive u = 0"
    and "fastJumpOpcode u (ad AND 0x0FFF) pv = Some False"
  shows "peek e ad u =
     (case peekSwitch e (ad AND 0x0FFF) pv
          ((if BUS_STUFF_ON u \<and> mySTYZeroPageAddress u = ad AND 0x0FFF
            then u\<lparr>myJMPoperandAddress := 0, myBusOverdriveAddress := ucast pv\<rparr>
            else u\<lparr>myJMPoperandAddress := 0\<rparr>)\<lparr>mySTYZeroPageAddress := 0\<rparr>) of
        None \<Rightarrow> None
      | Some (peekvalue, s4) \<Rightarrow>
          Some (Value peekvalue,
                if BUS_STUFF_ON s4 \<and> peekvalue = 0x84
                then s4\<lparr>mySTYZeroPageAddress := (ad AND 0x0FFF) + 1\<rparr> else s4))"
  unfolding peek_def Let_def
  using assms
  by (simp add: BUS_STUFF_ON_def split del: if_split)

lemma fastJumpOpcode_absent:
  assumes "pv \<noteq> 0x4C \<or>
     (\<exists>b1. myProgramImage u (unat (myCurrentBank u) * 4096 + unat a + 1) = Some b1 \<and>
        (b1 \<noteq> 0 \<or>
         (\<exists>b2. myProgramImage u (unat (myCurrentBank u) * 4096 + unat a + 2) = Some b2 \<and>
            b2 \<noteq> 0)))"
  shows "fastJumpOpcode u a pv = Some False"
  using assms by (auto simp: fastJumpOpcode_def)

lemma peekSwitch_plain:
  assumes "x \<noteq> 0xFEE" and "x \<noteq> 0xFEF"
  shows "\<exists>S'. peekSwitch e x pv S0 = Some (pv, S') \<and> myFastJumpActive S' = myFastJumpActive S0"
  using assms by (auto simp: peekSwitch_def bank_def Let_def)

lemma peekSwitch_bank:
  assumes "(n :: uInt16) \<le> 6"
  shows "peekSwitch e (0xFF5 + n) pv S0 = Some (pv, snd (bank e n S0))"
  using le6_cases [OF assms] by (auto simp: peekSwitch_def)

lemma peekSwitch_dsread:
  "peekSwitch e 0xFEF pv S0 = Some (readFromDatastream COMMSTREAM S0)"
  by (simp add: peekSwitch_def)

lemma peekSwitch_amplitude:
  "peekSwitch e 0xFEE pv S0 =
     (case amplitude (updateMusicModeDataFetchers e S0) of
        None \<Rightarrow> None
      | Some v \<Rightarrow> Some (v, updateMusicModeDataFetchers e S0))"
  by (simp add: peekSwitch_def Let_def)

lemma amplitude_update_cong:
  assumes "myImage S0 = myImage u" "myBUSRAM S0 = myBUSRAM u" "myMode S0 = myMode u"
    "myMusicCounters S0 = myMusicCounters u" "myMusicFrequencies S0 = myMusicFrequencies u"
    "myMusicWaveformSize S0 = myMusicWaveformSize u" "sysCycles S0 = sysCycles u"
    "mySystemCycles S0 = mySystemCycles u" "myFractionalClocks S0 = myFractionalClocks u"
  shows "amplitude (updateMusicModeDataFetchers e S0) = amplitude (updateMusicModeDataFetchers e u)"
  using assms
  by (intro amplitude_cong)
     (simp_all add: updateMusicModeDataFetchers_def Let_def case_prod_beta)

lemma peek_resumes:
  assumes hi: "ad AND 0x1000 \<noteq> 0"
    and rom: "myProgramImage u (unat (myCurrentBank u) * 4096 + unat (ad AND 0x0FFF)) = Some pv"
    and ul: "\<not> bankLocked u" and z: "myFastJumpActive u = 0"
    and n: "fastJumpOpcode u (ad AND 0x0FFF) pv = Some False"
  shows "ad AND 0x0FFF \<noteq> 0xFEE \<and> ad AND 0x0FFF \<noteq> 0xFEF \<longrightarrow>
           (\<exists>u'. peek e ad u = Some (Value pv, u') \<and> myFastJumpActive u' = 0)"
    and "ad AND 0x0FFF = 0xFEF \<longrightarrow>
           map_option fst (peek e ad u) =
             Some (Value (myDisplayImage u (unat (drop_bit 20 (getDatastreamPointer u COMMSTREAM)))))"
    and "k \<le> 6 \<and> ad AND 0x0FFF = 0xFF5 + k \<longrightarrow>
           (\<exists>u'. peek e ad u = Some (Value pv, u') \<and> getBank u' = k)"
    and "ad AND 0x0FFF = 0xFEE \<longrightarrow>
           map_option fst (peek e ad u) =
             map_option Value (amplitude (updateMusicModeDataFetchers e u))"
proof -
  define S where "S = (if BUS_STUFF_ON u \<and> mySTYZeroPageAddress u = ad AND 0x0FFF
            then u\<lparr>myJMPoperandAddress := 0, myBusOverdriveAddress := ucast pv\<rparr>
            else u\<lparr>myJMPoperandAddress := 0\<rparr>)\<lparr>mySTYZeroPageAddress := 0\<rparr>"
  note pd = peek_decoded [OF hi rom ul z n, of e, folded S_def]
  have S: "myFastJumpActive S = 0" "\<not> bankLocked S" "myBUSRAM S = myBUSRAM u"
    "myImage S = myImage u" "myMode S = myMode u" "myMusicCounters S = myMusicCounters u"
    "myMusicFrequencies S = myMusicFrequencies u" "myMusicWaveformSize S = myMusicWaveformSize u"
    "sysCycles S = sysCycles u" "mySystemCycles S = mySystemCycles u"
    "myFractionalClocks S = myFractionalClocks u"
    using z ul by (simp_all add: S_def bankLocked_def)
  show "ad AND 0x0FFF \<noteq> 0xFEE \<and> ad AND 0x0FFF \<noteq> 0xFEF \<longrightarrow>
           (\<exists>u'. peek e ad u = Some (Value pv, u') \<and> myFastJumpActive u' = 0)"
  proof (intro impI)
    assume a: "ad AND 0x0FFF \<noteq> 0xFEE \<and> ad AND 0x0FFF \<noteq> 0xFEF"
    then obtain S' where "peekSwitch e (ad AND 0x0FFF) pv S = Some (pv, S')"
      "myFastJumpActive S' = myFastJumpActive S"
      using peekSwitch_plain [of "ad AND 0x0FFF" e pv S] by blast
    then show "\<exists>u'. peek e ad u = Some (Value pv, u') \<and> myFastJumpActive u' = 0"
      unfolding pd using S(1) by simp
  qed
  show "ad AND 0x0FFF = 0xFEF \<longrightarrow>
           map_option fst (peek e ad u) =
             Some (Value (myDisplayImage u (unat (drop_bit 20 (getDatastreamPointer u COMMSTREAM)))))"
  proof (intro impI)
    assume a: "ad AND 0x0FFF = 0xFEF"
    have "fst (readFromDatastream COMMSTREAM S) =
            myDisplayImage u (unat (drop_bit 20 (getDatastreamPointer u COMMSTREAM)))"
      by (simp add: readFromDatastream_value myDisplayImage_def getDatastreamPointer_def S(3))
    then show "map_option fst (peek e ad u) =
             Some (Value (myDisplayImage u (unat (drop_bit 20 (getDatastreamPointer u COMMSTREAM)))))"
      unfolding pd a peekSwitch_dsread by (simp add: case_prod_beta)
  qed
  show "k \<le> 6 \<and> ad AND 0x0FFF = 0xFF5 + k \<longrightarrow>
           (\<exists>u'. peek e ad u = Some (Value pv, u') \<and> getBank u' = k)"
  proof (intro impI)
    assume a: "k \<le> 6 \<and> ad AND 0x0FFF = 0xFF5 + k"
    then have k: "k \<le> 6" and ak: "ad AND 0x0FFF = 0xFF5 + k" by blast+
    have b: "myCurrentBank (snd (bank e k S)) = k"
      using S(2) by (simp add: bank_def Let_def)
    show "\<exists>u'. peek e ad u = Some (Value pv, u') \<and> getBank u' = k"
      unfolding pd ak peekSwitch_bank [OF k] using b by (simp add: getBank_def)
  qed
  show "ad AND 0x0FFF = 0xFEE \<longrightarrow>
           map_option fst (peek e ad u) =
             map_option Value (amplitude (updateMusicModeDataFetchers e u))"
  proof (intro impI)
    assume a: "ad AND 0x0FFF = 0xFEE"
    have am: "amplitude (updateMusicModeDataFetchers e S) = amplitude (updateMusicModeDataFetchers e u)"
      by (rule amplitude_update_cong) (simp_all add: S)
    show "map_option fst (peek e ad u) =
             map_option Value (amplitude (updateMusicModeDataFetchers e u))"
      unfolding pd a peekSwitch_amplitude am by (simp split: option.splits)
  qed
qed

lemma jumpCart_more:
  "myProgramImage jumpCart 0x103 = Some 0" "myProgramImage jumpCart 0xFF8 = Some 0"
  "myProgramImage jumpCart 0x110 = Some 0x4C" "myProgramImage jumpCart 0x111 = Some 0x34"
  by (simp_all add: jumpCart_def blankCart_def myProgramImage_def)

lemma peekSwitch_value_registers:
  assumes "x \<noteq> 0xFEE" and "myBUSRAM S1 = myBUSRAM S2"
  shows "map_option fst (peekSwitch e x v S1) = map_option fst (peekSwitch e x v S2)"
  using assms
  by (simp add: peekSwitch_def readFromDatastream_value getDatastreamPointer_def)

lemma peek_value_registers:
  assumes so: "sameRegisters s t" and na: "a AND 0x1000 = 0 \<or> a AND 0x0FFF \<noteq> 0xFEE"
  shows "map_option fst (peek e a s) = map_option fst (peek e a t)"
proof (cases "a AND 0x1000 = 0")
  case True
  then show ?thesis by (simp add: peek_def Let_def)
next
  case hi: False
  have pi: "myProgramImage s i = myProgramImage t i" for i
    using so by (simp add: myProgramImage_def sameRegisters_def)
  have fj: "fastJumpOpcode s x v = fastJumpOpcode t x v" for x v
    using so
    by (simp add: fastJumpOpcode_def pi BUS_STUFF_ON_def sameRegisters_def
          cong: option.case_cong if_cong)
  have f: "myCurrentBank s = myCurrentBank t" "bankLocked s = bankLocked t"
    "myFastJumpActive s = myFastJumpActive t" "myJMPoperandAddress s = myJMPoperandAddress t"
    "myBUSRAM s = myBUSRAM t" "BUS_STUFF_ON s = BUS_STUFF_ON t"
    using so by (simp_all add: sameRegisters_def bankLocked_def BUS_STUFF_ON_def)
  show ?thesis
  proof (cases "myProgramImage t (unat (myCurrentBank t) * 4096 + unat (a AND 0x0FFF))")
    case None
    then show ?thesis using hi by (simp add: peek_def Let_def pi f)
  next
    case (Some pv)
    note rt = Some
    have rs: "myProgramImage s (unat (myCurrentBank s) * 4096 + unat (a AND 0x0FFF)) = Some pv"
      using rt by (simp add: pi f)
    show ?thesis
    proof (cases "bankLocked t")
      case True
      then show ?thesis using hi rt rs by (simp add: peek_def Let_def f)
    next
      case ul: False
      then have uls: "\<not> bankLocked s" by (simp add: f)
      show ?thesis
      proof (cases "myFastJumpActive t \<noteq> 0 \<and> myJMPoperandAddress t = a AND 0x0FFF")
        case True
        then have d: "myFastJumpActive t \<noteq> 0" "myJMPoperandAddress t = a AND 0x0FFF"
          and ds: "myFastJumpActive s \<noteq> 0" "myJMPoperandAddress s = a AND 0x0FFF"
          by (simp_all add: f)
        show ?thesis
          unfolding peek_fast_jump [OF hi rs uls ds] peek_fast_jump [OF hi rt ul d]
          by (simp add: getDatastreamPointer_def f)
      next
        case nd: False
        then have nds: "\<not> (myFastJumpActive s \<noteq> 0 \<and> myJMPoperandAddress s = a AND 0x0FFF)"
          by (simp add: f)
        have ct: "(myFastJumpActive t \<noteq> 0 \<and> myJMPoperandAddress t = a AND 0x0FFF) = False"
          using nd by blast
        have cs: "(myFastJumpActive s \<noteq> 0 \<and> myJMPoperandAddress s = a AND 0x0FFF) = False"
          using nds by blast
        show ?thesis
        proof (cases "fastJumpOpcode t (a AND 0x0FFF) pv")
          case None
          then show ?thesis using hi rt rs ul uls
            by (simp add: peek_def Let_def fj cs ct)
        next
          case (Some b)
          show ?thesis
          proof (cases b)
            case True
            then show ?thesis using hi rt rs ul uls Some
              by (simp add: peek_def Let_def fj cs ct)
          next
            case False
            with Some have ft: "fastJumpOpcode t (a AND 0x0FFF) pv = Some False" by simp
            then have fs: "fastJumpOpcode s (a AND 0x0FFF) pv = Some False" by (simp add: fj)
            have na': "a AND 0x0FFF \<noteq> 0xFEE" using na hi by blast
            have "map_option fst (peekSwitch e (a AND 0x0FFF) pv
                ((if BUS_STUFF_ON s \<and> mySTYZeroPageAddress s = a AND 0x0FFF
                  then s\<lparr>myJMPoperandAddress := 0, myBusOverdriveAddress := ucast pv\<rparr>
                  else s\<lparr>myJMPoperandAddress := 0\<rparr>)\<lparr>mySTYZeroPageAddress := 0\<rparr>))
              = map_option fst (peekSwitch e (a AND 0x0FFF) pv
                ((if BUS_STUFF_ON t \<and> mySTYZeroPageAddress t = a AND 0x0FFF
                  then t\<lparr>myJMPoperandAddress := 0, myBusOverdriveAddress := ucast pv\<rparr>
                  else t\<lparr>myJMPoperandAddress := 0\<rparr>)\<lparr>mySTYZeroPageAddress := 0\<rparr>))"
              by (rule peekSwitch_value_registers [OF na']) (simp add: f)
            then have "map_option Value (map_option fst (peekSwitch e (a AND 0x0FFF) pv
                ((if BUS_STUFF_ON s \<and> mySTYZeroPageAddress s = a AND 0x0FFF
                  then s\<lparr>myJMPoperandAddress := 0, myBusOverdriveAddress := ucast pv\<rparr>
                  else s\<lparr>myJMPoperandAddress := 0\<rparr>)\<lparr>mySTYZeroPageAddress := 0\<rparr>)))
              = map_option Value (map_option fst (peekSwitch e (a AND 0x0FFF) pv
                ((if BUS_STUFF_ON t \<and> mySTYZeroPageAddress t = a AND 0x0FFF
                  then t\<lparr>myJMPoperandAddress := 0, myBusOverdriveAddress := ucast pv\<rparr>
                  else t\<lparr>myJMPoperandAddress := 0\<rparr>)\<lparr>mySTYZeroPageAddress := 0\<rparr>)))"
              by (rule arg_cong)
            then show ?thesis
              unfolding peek_normal [OF hi rs uls nds fs] peek_normal [OF hi rt ul nd ft]
              by (simp only: option.map_comp o_def)
          qed
        qed
      qed
    qed
  qed
qed

lemma load_save_registers:
  assumes "wellFormed s" and "wellFormed t"
    and "myImage t = myImage s" and "bankLocked t = bankLocked s"
  shows "sameRegisters (snd (load e (snd (save e s [])) t)) s"
  unfolding load_save [OF assms(1,2)]
  using assms(3,4) by (simp add: sameRegisters_def bank_def Let_def bankLocked_def)

lemma load_save_observable:
  assumes "wellFormed s" and "wellFormed t"
    and "myImage t = myImage s" and "bankLocked t = bankLocked s"
    and "sysCycles t = sysCycles s"
  shows "sameObservable (snd (load e (snd (save e s [])) t))
           (s\<lparr>myFractionalClocks := fracIn e (fracOut e (myFractionalClocks s))\<rparr>)"
  unfolding load_save [OF assms(1,2)]
  using assms(3,4,5) by (simp add: sameObservable_def bank_def Let_def bankLocked_def)

lemma wellFormed_tickCart: "wellFormed tickCart"
  by (simp add: wellFormed_def tickCart_def)

lemma floor_rat_numeral: "\<lfloor>(numeral a :: rat) / numeral b\<rfloor> = numeral a div numeral b"
  using floor_divide_of_int_eq [of "numeral a" "numeral b", where ?'a = rat] by simp

lemma tick_before:
  "amplitude (updateMusicModeDataFetchers exactEnv tickCart) = Some 1"
  by (simp add: updateMusicModeDataFetchers_def exactEnv_def tickCart_def truncate0_def Let_def
        amplitude_def DIGITAL_AUDIO_ON_def waveByte_def getWaveform_def getLE32_def WAVEFORM_def
        displayByte_def DSRAM_def floor_rat_numeral)

lemma tick_frac:
  "fracIn exactEnv (fracOut exactEnv (myFractionalClocks tickCart)) = 98323823 / 100000000"
  by (simp add: exactEnv_def tickCart_def truncate0_def floor_rat_numeral)

lemma tick_after:
  "amplitude (updateMusicModeDataFetchers exactEnv
      (tickCart\<lparr>myFractionalClocks := 98323823 / 100000000\<rparr>)) = Some 0"
  by (simp add: updateMusicModeDataFetchers_def exactEnv_def tickCart_def truncate0_def Let_def
        amplitude_def DIGITAL_AUDIO_ON_def waveByte_def getWaveform_def getLE32_def WAVEFORM_def
        displayByte_def DSRAM_def floor_rat_numeral)

lemma tick_peek:
  "map_option fst (peek exactEnv 0x1FEE (tickCart\<lparr>myFractionalClocks := f\<rparr>)) =
     map_option Value
       (amplitude (updateMusicModeDataFetchers exactEnv (tickCart\<lparr>myFractionalClocks := f\<rparr>)))"
proof -
  have hi: "(0x1FEE :: uInt16) AND 0x1000 \<noteq> 0" by simp
  have rom: "myProgramImage (tickCart\<lparr>myFractionalClocks := f\<rparr>)
       (unat (myCurrentBank (tickCart\<lparr>myFractionalClocks := f\<rparr>)) * 4096
          + unat ((0x1FEE :: uInt16) AND 0x0FFF)) = Some 0"
    by (simp add: tickCart_def myProgramImage_def)
  have ul: "\<not> bankLocked (tickCart\<lparr>myFractionalClocks := f\<rparr>)"
    by (simp add: tickCart_def bankLocked_def)
  have z: "myFastJumpActive (tickCart\<lparr>myFractionalClocks := f\<rparr>) = 0"
    by (simp add: tickCart_def)
  have n: "fastJumpOpcode (tickCart\<lparr>myFractionalClocks := f\<rparr>) ((0x1FEE :: uInt16) AND 0x0FFF) 0
      = Some False"
    by (simp add: fastJumpOpcode_def)
  from peek_resumes(4) [OF hi rom ul z n, where e = exactEnv] show ?thesis by simp
qed

lemma tick_same: "tickCart\<lparr>myFractionalClocks := myFractionalClocks tickCart\<rparr> = tickCart"
  by simp

text \<open>
  \<^verbatim>\<open>updateMusicModeDataFetchers\<close> stores the second component of \<open>toClocks\<close> in the
  accumulator; in \<open>exactEnv\<close> the accumulator holds the fractional part of the clocks
  counted so far, however the cycles are split into updates.
\<close>

lemma updateMusicModeDataFetchers_accumulator:
  "myFractionalClocks (updateMusicModeDataFetchers e s) =
     snd (toClocks e (sysCycles s - mySystemCycles s) (myFractionalClocks s))"
  by (simp add: updateMusicModeDataFetchers_def Let_def case_prod_beta)

lemma toClocks_exactEnv:
  assumes "0 \<le> sint c" and "0 \<le> f"
  shows "snd (toClocks exactEnv c f) =
     frac (20000 * of_int (sint c) / (119319166666667 / 100000000) + f)"
proof -
  have "0 \<le> (of_int (sint c) :: rat)" using assms(1) by (simp only: of_int_0_le_iff)
  then have "0 \<le> 20000 * (of_int (sint c) :: rat) / (119319166666667 / 100000000) + f"
    using assms(2) by (intro add_nonneg_nonneg divide_nonneg_nonneg mult_nonneg_nonneg) simp_all
  then show ?thesis
    by (simp add: exactEnv_def truncate0_def Let_def frac_def)
qed

lemma frac_add_frac: "frac (a + frac (b :: rat)) = frac (a + b)"
proof -
  have "\<lfloor>a + (b - of_int \<lfloor>b\<rfloor>)\<rfloor> = \<lfloor>(a + b) - of_int \<lfloor>b\<rfloor>\<rfloor>"
    by (simp add: algebra_simps)
  also have "\<dots> = \<lfloor>a + b\<rfloor> - \<lfloor>b\<rfloor>" by (rule floor_diff_of_int)
  finally show ?thesis by (simp add: frac_def)
qed

lemma accumulate_exactEnv:
  assumes "\<forall>c \<in> set cs. 0 \<le> sint c" and "0 \<le> x"
  shows "fold (\<lambda>c f. snd (toClocks exactEnv c f)) cs (frac x) =
     frac (20000 * of_int (sum_list (map sint cs)) / (119319166666667 / 100000000) + x)"
  using assms
proof (induction cs arbitrary: x)
  case Nil
  then show ?case by simp
next
  case (Cons c cs)
  have c0: "0 \<le> sint c" using Cons.prems by simp
  let ?y = "20000 * of_int (sint c) / (119319166666667 / 100000000) + x"
  have "0 \<le> (of_int (sint c) :: rat)" using c0 by (simp only: of_int_0_le_iff)
  then have y0: "0 \<le> ?y"
    using Cons.prems(2) by (intro add_nonneg_nonneg divide_nonneg_nonneg mult_nonneg_nonneg) simp_all
  have "snd (toClocks exactEnv c (frac x)) = frac ?y"
    using toClocks_exactEnv [OF c0 frac_ge_0 [of x]] by (simp add: frac_add_frac)
  then have "fold (\<lambda>c f. snd (toClocks exactEnv c f)) (c # cs) (frac x) =
      fold (\<lambda>c f. snd (toClocks exactEnv c f)) cs (frac ?y)" by simp
  also have "\<dots> = frac (20000 * of_int (sum_list (map sint cs)) / (119319166666667 / 100000000) + ?y)"
    using Cons.IH [OF _ y0] Cons.prems(1) by simp
  also have "20000 * of_int (sum_list (map sint cs)) / (119319166666667 / 100000000) + ?y =
      20000 * of_int (sum_list (map sint (c # cs))) / (119319166666667 / 100000000) + x"
    by (simp add: field_simps)
  finally show ?case .
qed

lemma tickCart_accumulator:
  "fold (\<lambda>c f. snd (toClocks exactEnv c f)) (replicate 69 0x7FFFFFFF @ [892305950])
      (fracZero exactEnv) = myFractionalClocks tickCart"
proof -
  have s: "\<forall>c \<in> set (replicate 69 0x7FFFFFFF @ [892305950 :: uInt32]). 0 \<le> sint c"
    by simp
  have z: "fracZero exactEnv = frac 0" by (simp add: exactEnv_def)
  have m: "sum_list (map sint (replicate 69 0x7FFFFFFF @ [892305950 :: uInt32])) = 149068677593"
    by (simp add: sum_list_replicate)
  show ?thesis
    unfolding z accumulate_exactEnv [OF s order_refl] m
    by (simp add: tickCart_def frac_def floor_rat_numeral)
qed



section \<open>The claims\<close>

text \<open>
  C4, as the code has it.  For every stream index and every well-formed cartridge,
  \<^verbatim>\<open>readFromDatastream\<close> returns the display-RAM byte at \<open>pointer >> 20\<close>, with the
  pointer as it was before the call, and advances the pointer, modulo \<open>2\<^sup>3\<^sup>2\<close>, by
  the low 16 bits of the stream's increment shifted left by 12.  The increment is
  read as 32 bits and narrowed to \<^verbatim>\<open>uInt16\<close> before the shift (the source notes the
  format \<^verbatim>\<open>----IIFF\<close>), so bits 16 to 19 of the stored increment do not take part.
\<close>

theorem readFromDatastream_semantics:
  assumes "wellFormed s"
  shows "fst (readFromDatastream i s) =
           myBUSRAM s ! (DSRAM + unat (drop_bit 20 (getDatastreamPointer s i))) \<and>
         getDatastreamPointer (snd (readFromDatastream i s)) i =
           getDatastreamPointer s i + push_bit 12 (take_bit 16 (getDatastreamIncrement s i))"
  using assms by (simp add: readFromDatastream_value readFromDatastream_pointer)

theorem readFromDatastream_semantics_witness:
  "wellFormed incCart \<and> fst (readFromDatastream 0 incCart) = 0 \<and>
   getDatastreamPointer (snd (readFromDatastream 0 incCart)) 0 = 0"
proof -
  have "myBUSRAM incCart ! (DSRAM + unat (drop_bit 20 (0 :: uInt32))) = 0"
    by (simp add: incCart_def DSRAM_def)
  with readFromDatastream_semantics [OF wellFormed_incCart, of 0] wellFormed_incCart
  show ?thesis
    by (simp add: incCart_inc incCart_ptr)
qed

text \<open>
  C4 as stated fails: with the increment \<open>0x10000\<close> the claim has the pointer advance
  by \<open>0x10000000\<close>, and the code leaves it where it was.
\<close>

theorem readFromDatastream_increment_counterexample:
  "getDatastreamIncrement incCart 0 = 0x10000 \<and>
   getDatastreamPointer incCart 0 = 0 \<and>
   getDatastreamPointer (snd (readFromDatastream 0 incCart)) 0 = 0 \<and>
   getDatastreamPointer (snd (readFromDatastream 0 incCart)) 0 \<noteq>
     getDatastreamPointer incCart 0 + push_bit 12 (getDatastreamIncrement incCart 0)"
proof -
  have "getDatastreamPointer (snd (readFromDatastream 0 incCart)) 0 = 0"
    using readFromDatastream_pointer [OF wellFormed_incCart, of 0]
    by (simp add: incCart_inc incCart_ptr)
  then show ?thesis by (simp add: incCart_inc incCart_ptr)
qed




text \<open>
  C8, as the code has it.  After \<^verbatim>\<open>setInitialState\<close>, after the constructor and
  after \<^verbatim>\<open>reset\<close> the mode byte is \<open>0xFF\<close>.  Both nibbles are non-zero, so neither
  \<^verbatim>\<open>BUS_STUFF_ON\<close> nor \<^verbatim>\<open>DIGITAL_AUDIO_ON\<close> holds: bus stuffing is off and the
  amplitude comes from the three waveforms (the source: "Fast Fetch off and 3-Voice
  music").
\<close>

theorem mode_after_reset:
  "myMode (setInitialState s) = 0xFF \<and>
   myMode (CartridgeBUS e img s0) = 0xFF \<and>
   myMode (reset e rnd s) = 0xFF \<and>
   \<not> BUS_STUFF_ON (CartridgeBUS e img s0) \<and> \<not> DIGITAL_AUDIO_ON (CartridgeBUS e img s0) \<and>
   \<not> BUS_STUFF_ON (reset e rnd s) \<and> \<not> DIGITAL_AUDIO_ON (reset e rnd s)"
  by (simp add: setInitialState_def CartridgeBUS_def reset_def Let_def bank_mode
        BUS_STUFF_ON_def DIGITAL_AUDIO_ON_def)

text \<open>C8 as stated fails: after \<^verbatim>\<open>reset\<close> the two features are not both enabled.\<close>

theorem mode_after_reset_counterexample:
  "\<not> (BUS_STUFF_ON (reset exampleEnv None blankCart) \<and>
      DIGITAL_AUDIO_ON (reset exampleEnv None blankCart))"
  by (simp add: setInitialState_def reset_def Let_def bank_mode BUS_STUFF_ON_def)

text \<open>
  C9.  When the string at the front of the stream is not the cartridge's name,
  \<^verbatim>\<open>load\<close> returns false and the cartridge is as it was.
\<close>

theorem load_wrong_tag:
  "getString inp = Some (tag, rest) \<Longrightarrow> tag \<noteq> name e \<Longrightarrow> load e inp s = (False, s)"
  by (simp add: load_def)

theorem load_wrong_tag_witness:
  "getString [PString ''CartridgeF8'', PShort 3] = Some (''CartridgeF8'', [PShort 3]) \<and>
   ''CartridgeF8'' \<noteq> name exampleEnv \<and>
   load exampleEnv [PString ''CartridgeF8'', PShort 3] blankCart = (False, blankCart)"
  using load_wrong_tag [of "[PString ''CartridgeF8'', PShort 3]" "''CartridgeF8''"
      "[PShort 3]" exampleEnv blankCart]
  by (simp add: exampleEnv_def)

text \<open>
  C10.  \<^verbatim>\<open>poke\<close> returns false for every address and value.  A write to one of
  the bank hotspots \<open>0x1FF5 + n\<close>, \<open>n \<le> 6\<close>, on an unlocked cartridge does what
  \<^verbatim>\<open>bank(n)\<close> does (the bank register becomes \<open>n\<close>, the pages are mapped again,
  \<^verbatim>\<open>myBankChanged\<close> is set) and returns false all the same.
\<close>

theorem poke_returns_false:
  "fst (poke e address v s) = False \<and>
   (\<not> bankLocked s \<and> n \<le> 6 \<longrightarrow>
      poke e (0x1FF5 + n) v s = (False, NoDevice, snd (bank e n s)) \<and>
      getBank (snd (snd (poke e (0x1FF5 + n) v s))) = n \<and>
      myBankChanged (snd (snd (poke e (0x1FF5 + n) v s))) \<and>
      sysPages (snd (snd (poke e (0x1FF5 + n) v s))) =
        mapPages (PAGE_SHIFT e) (unat (push_bit 12 n)) 0x1040 (sysPages s))"
proof -
  have 1: "fst (poke e address v s) = False"
    by (simp add: poke_def Let_def split: prod.splits)
  show ?thesis using 1
    by (simp add: poke_bank_hotspot bank_def Let_def getBank_def)
qed

theorem poke_returns_false_witness:
  "\<not> bankLocked blankCart \<and> (3 :: uInt16) \<le> 6 \<and>
   fst (poke exampleEnv 0x1FF8 0 blankCart) = False \<and>
   getBank (snd (snd (poke exampleEnv 0x1FF8 0 blankCart))) = 3 \<and>
   getBank blankCart = 0"
proof -
  have h: "\<not> bankLocked blankCart" by (simp add: bankLocked_def blankCart_def)
  have g: "getBank blankCart = 0" by (simp add: getBank_def blankCart_def)
  have k: "(3 :: uInt16) \<le> 6" by simp
  note t = poke_returns_false [of exampleEnv "0x1FF8" 0 blankCart 3]
  from t have a: "fst (poke exampleEnv 0x1FF8 0 blankCart) = False" by (rule conjunct1)
  from t h k have "getBank (snd (snd (poke exampleEnv (0x1FF5 + 3) 0 blankCart))) = 3"
    by blast
  then have b: "getBank (snd (snd (poke exampleEnv 0x1FF8 0 blankCart))) = 3" by simp
  from h k a b g show ?thesis by blast
qed

text \<open>
  C5.  For a stream whose pointer slot lies below the display RAM (every index up to
  73, so all 18 slots of the pointer table): the write stores \<open>v\<close> in the display RAM
  at \<open>pointer >> 20\<close> and then advances the pointer by \<open>0x100000\<close>, whatever the
  increment; a read on any stream \<open>j\<close> whose pointer has the integer position the
  write used returns \<open>v\<close>.  \<^verbatim>\<open>poke\<close> at the \<^verbatim>\<open>DSWRITE\<close> register is this write on the
  command stream.
\<close>

theorem datastream_write_then_read:
  assumes "wellFormed s" and "DSxPTR + unat i * 4 + 3 < DSRAM"
  shows "myBUSRAM (writeToDatastream i v s)
           ! (DSRAM + unat (drop_bit 20 (getDatastreamPointer s i))) = v \<and>
         getDatastreamPointer (writeToDatastream i v s) i
           = getDatastreamPointer s i + 0x100000 \<and>
         (\<forall>j. drop_bit 20 (getDatastreamPointer (writeToDatastream i v s) j)
                = drop_bit 20 (getDatastreamPointer s i)
              \<longrightarrow> fst (readFromDatastream j (writeToDatastream i v s)) = v) \<and>
         poke e 0x1FF0 v s = (False, NoDevice, writeToDatastream COMMSTREAM v s)"
  using assms
  by (simp add: writeToDatastream_stored writeToDatastream_pointer poke_DSWRITE
        readFromDatastream_value)

theorem datastream_write_then_read_witness:
  "wellFormed blankCart \<and> DSxPTR + unat COMMSTREAM * 4 + 3 < DSRAM \<and>
   drop_bit 20 (getDatastreamPointer (writeToDatastream COMMSTREAM 0x5A blankCart) 0)
     = drop_bit 20 (getDatastreamPointer blankCart COMMSTREAM) \<and>
   fst (readFromDatastream 0 (writeToDatastream COMMSTREAM 0x5A blankCart)) = 0x5A"
proof -
  have h: "DSxPTR + unat COMMSTREAM * 4 + 3 < DSRAM"
    by (simp add: DSxPTR_def COMMSTREAM_def DSRAM_def)
  have p: "drop_bit 20 (getDatastreamPointer (writeToDatastream COMMSTREAM 0x5A blankCart) 0)
     = drop_bit 20 (getDatastreamPointer blankCart COMMSTREAM)"
    by (simp only: blank_write_ptr0 blank_ptr16)
  from datastream_write_then_read [OF wellFormed_blankCart h, of "0x5A" exampleEnv] p
  have "fst (readFromDatastream 0 (writeToDatastream COMMSTREAM 0x5A blankCart)) = 0x5A"
    by blast
  with wellFormed_blankCart h p show ?thesis by blast
qed

text \<open>
  C6, as the code has it.  While the bank is locked, every \<^verbatim>\<open>bank(n)\<close> returns false
  and leaves the cartridge as it was; while it is unlocked, \<^verbatim>\<open>bank(3)\<close> returns true,
  sets the bank register to 3 and maps the pages from \<open>0x1040\<close> on to bank 3.
  \<^verbatim>\<open>patch\<close> does not look at the lock: it returns false, changing nothing, exactly
  for the addresses whose low 12 bits are below \<open>0x40\<close>, and otherwise (with the bank
  register within the seven banks) writes the byte into the ROM image, sets
  \<^verbatim>\<open>myBankChanged\<close> and returns true.
\<close>

theorem bank_lock_and_patch:
  "(bankLocked s \<longrightarrow> bank e n s = (False, s)) \<and>
   (\<not> bankLocked s \<longrightarrow>
      fst (bank e 3 s) = True \<and> getBank (snd (bank e 3 s)) = 3 \<and>
      sysPages (snd (bank e 3 s)) = mapPages (PAGE_SHIFT e) 0x3000 0x1040 (sysPages s)) \<and>
   (address AND 0x0FFF < 0x0040 \<longrightarrow> patch address v s = Some (False, s)) \<and>
   (0x0040 \<le> address AND 0x0FFF \<and> unat (myCurrentBank s) < 7 \<longrightarrow>
      patch address v s =
        Some (True,
              s\<lparr>myImage := (myImage s)[4096 + (unat (myCurrentBank s) * 4096
                                            + unat (address AND 0x0FFF)) := v],
                myBankChanged := True\<rparr>))"
  by (simp add: patch_low patch_high bank_def Let_def getBank_def)

theorem bank_lock_and_patch_witness:
  "bankLocked lockedCart \<and> bank exampleEnv 3 lockedCart = (False, lockedCart) \<and>
   \<not> bankLocked blankCart \<and> getBank (snd (bank exampleEnv 3 blankCart)) = 3 \<and>
   (0x1010 :: uInt16) AND 0x0FFF < 0x0040 \<and>
   patch 0x1010 0xAA lockedCart = Some (False, lockedCart) \<and>
   0x0040 \<le> (0x1040 :: uInt16) AND 0x0FFF \<and> unat (myCurrentBank lockedCart) < 7 \<and>
   map_option fst (patch 0x1040 0xAA lockedCart) = Some True"
proof -
  have u: "\<not> bankLocked blankCart" by (simp add: bankLocked_def blankCart_def)
  have lo: "(0x1010 :: uInt16) AND 0x0FFF < 0x0040" by simp
  have hi: "0x0040 \<le> (0x1040 :: uInt16) AND 0x0FFF" by simp
  from bank_lock_and_patch [of lockedCart exampleEnv 3 "0x1010" "0xAA"] lockedCart_locked lo
  have a: "bank exampleEnv 3 lockedCart = (False, lockedCart)"
    and c: "patch 0x1010 0xAA lockedCart = Some (False, lockedCart)" by blast+
  from bank_lock_and_patch [of blankCart exampleEnv 3 "0x1010" "0xAA"] u
  have b: "getBank (snd (bank exampleEnv 3 blankCart)) = 3" by blast
  from bank_lock_and_patch [of lockedCart exampleEnv 3 "0x1040" "0xAA"] hi lockedCart_bank
  have "patch 0x1040 0xAA lockedCart =
        Some (True,
              lockedCart\<lparr>myImage := (myImage lockedCart)[4096 + (unat (myCurrentBank lockedCart) * 4096
                                            + unat ((0x1040 :: uInt16) AND 0x0FFF)) := 0xAA],
                myBankChanged := True\<rparr>)" by blast
  then have d: "map_option fst (patch 0x1040 0xAA lockedCart) = Some True" by simp
  from lockedCart_locked a u b lo c hi lockedCart_bank d show ?thesis by blast
qed

text \<open>
  C6 as stated fails for \<^verbatim>\<open>patch\<close>: on a locked cartridge it returns true and the
  ROM byte changes.
\<close>

theorem patch_while_locked_counterexample:
  "bankLocked lockedCart \<and>
   myImage lockedCart ! 4160 = 0 \<and>
   (\<exists>s'. patch 0x1040 0xAA lockedCart = Some (True, s') \<and> myImage s' ! 4160 = 0xAA)"
proof -
  have hi: "0x0040 \<le> (0x1040 :: uInt16) AND 0x0FFF" by simp
  have i: "myImage lockedCart ! 4160 = 0"
    by (simp add: lockedCart_def lockBank_def blankCart_def)
  have l: "length (myImage lockedCart) = 32768"
    by (simp add: lockedCart_def lockBank_def blankCart_def)
  have z: "unat (myCurrentBank lockedCart) = 0"
    by (simp add: lockedCart_def lockBank_def blankCart_def)
  have "patch 0x1040 0xAA lockedCart =
          Some (True, lockedCart\<lparr>myImage := (myImage lockedCart)[4160 := 0xAA],
                                 myBankChanged := True\<rparr>)"
    using patch_high [OF hi lockedCart_bank, of "0xAA"] by (simp add: z)
  with l i lockedCart_locked show ?thesis by simp
qed

text \<open>
  C3, as the code has it.  A write below \<open>0x1000\<close> passes \<open>v AND overdrive\<close> on to
  the device and returns false, and afterwards the pending address is \<open>0xff\<close>,
  whatever the address was.  When the address is not the pending one, or its low 7
  bits are above \<open>0x24\<close>, the overdrive byte is \<open>0xff\<close>, so the value written is
  \<open>v\<close>, and nothing else changes.  When the address is the pending one and its low 7
  bits \<open>m\<close> are at most \<open>0x24\<close>, the overdrive byte is the byte read from the stream
  \<open>d\<close> named by the low nibble of map entry \<open>m\<close>; the entry becomes itself shifted
  right by 4 with \<open>d\<close> in the top nibble, and the pointer of stream \<open>d\<close> advances as
  in a read.  The stream byte is combined with \<open>v\<close> by AND; it does not replace it.
\<close>

theorem busOverdrive_one_shot:
  assumes "wellFormed s" and "address AND 0x1000 = 0"
  shows
   "poke e address v s =
     (False,
      (if (address AND 0x3ff) AND 0x80 \<noteq> 0 then ToM6532 address (v AND fst (busOverdrive address s))
       else if (address AND 0x3ff) AND 0x200 = 0 then ToTIA address (v AND fst (busOverdrive address s))
       else NoDevice),
      snd (busOverdrive address s)) \<and>
    myBusOverdriveAddress (snd (busOverdrive address s)) = 0xff \<and>
    (address \<noteq> myBusOverdriveAddress s \<or> 0x24 < (ucast (address AND 0x7f) :: uInt8) \<longrightarrow>
       busOverdrive address s = (0xff, s\<lparr>myBusOverdriveAddress := 0xff\<rparr>) \<and>
       v AND fst (busOverdrive address s) = v) \<and>
    (address = myBusOverdriveAddress s \<and> (ucast (address AND 0x7f) :: uInt8) \<le> 0x24 \<longrightarrow>
       (let m = (ucast (address AND 0x7f) :: uInt8);
            d = (ucast (getAddressMap s m AND 0x0f) :: uInt8);
            s' = snd (busOverdrive address s)
        in fst (busOverdrive address s) =
             myBUSRAM s ! (DSRAM + unat (drop_bit 20 (getDatastreamPointer s d))) \<and>
           getAddressMap s' m = drop_bit 4 (getAddressMap s m) OR push_bit 28 (ucast d) \<and>
           getDatastreamPointer s' d =
             getDatastreamPointer s d + push_bit 12 (take_bit 16 (getDatastreamIncrement s d))))"
proof -
  have idle: "address \<noteq> myBusOverdriveAddress s \<or> 0x24 < (ucast (address AND 0x7f) :: uInt8) \<longrightarrow>
       busOverdrive address s = (0xff, s\<lparr>myBusOverdriveAddress := 0xff\<rparr>) \<and>
       v AND fst (busOverdrive address s) = v"
    by (auto simp: busOverdrive_idle and_ff8)
  have armed: "address = myBusOverdriveAddress s \<and> (ucast (address AND 0x7f) :: uInt8) \<le> 0x24 \<longrightarrow>
       (let m = (ucast (address AND 0x7f) :: uInt8);
            d = (ucast (getAddressMap s m AND 0x0f) :: uInt8);
            s' = snd (busOverdrive address s)
        in fst (busOverdrive address s) =
             myBUSRAM s ! (DSRAM + unat (drop_bit 20 (getDatastreamPointer s d))) \<and>
           getAddressMap s' m = drop_bit 4 (getAddressMap s m) OR push_bit 28 (ucast d) \<and>
           getDatastreamPointer s' d =
             getDatastreamPointer s d + push_bit 12 (take_bit 16 (getDatastreamIncrement s d)))"
  proof (intro impI)
    assume h: "address = myBusOverdriveAddress s \<and> (ucast (address AND 0x7f) :: uInt8) \<le> 0x24"
    then have e: "address = myBusOverdriveAddress s"
      and m: "(ucast (address AND 0x7f) :: uInt8) \<le> 0x24" by blast+
    show "let m = (ucast (address AND 0x7f) :: uInt8);
            d = (ucast (getAddressMap s m AND 0x0f) :: uInt8);
            s' = snd (busOverdrive address s)
        in fst (busOverdrive address s) =
             myBUSRAM s ! (DSRAM + unat (drop_bit 20 (getDatastreamPointer s d))) \<and>
           getAddressMap s' m = drop_bit 4 (getAddressMap s m) OR push_bit 28 (ucast d) \<and>
           getDatastreamPointer s' d =
             getDatastreamPointer s d + push_bit 12 (take_bit 16 (getDatastreamIncrement s d))"
      unfolding Let_def busOverdrive_armed [OF e m] fst_conv snd_conv
      using assms(1)
      by (simp add: readFromDatastream_value map_after_overdrive pointer_after_overdrive
            unat_nibble)
  qed
  show ?thesis
    using idle armed poke_low [OF assms(2)] busOverdrive_clears by blast
qed

theorem busOverdrive_one_shot_witness:
  "wellFormed armedCart \<and> (0x02 :: uInt16) AND 0x1000 = 0 \<and> (0x03 :: uInt16) AND 0x1000 = 0 \<and>
   0x02 = myBusOverdriveAddress armedCart \<and> (ucast ((0x02 :: uInt16) AND 0x7f) :: uInt8) \<le> 0x24 \<and>
   0x03 \<noteq> myBusOverdriveAddress armedCart \<and>
   fst (busOverdrive 0x02 armedCart) = 0xF0 \<and>
   getAddressMap (snd (busOverdrive 0x02 armedCart)) 2 = 0 \<and>
   busOverdrive 0x03 armedCart = (0xff, armedCart\<lparr>myBusOverdriveAddress := 0xff\<rparr>)"
proof -
  have a2: "(0x02 :: uInt16) AND 0x1000 = 0" and a3: "(0x03 :: uInt16) AND 0x1000 = 0" by simp_all
  have m: "(ucast ((0x02 :: uInt16) AND 0x7f) :: uInt8) \<le> 0x24" by simp
  have m2: "(ucast ((0x02 :: uInt16) AND 0x7f) :: uInt8) = 2" by simp
  have n: "0x03 \<noteq> myBusOverdriveAddress armedCart" by (simp add: armedCart_addr)
  have e: "0x02 = myBusOverdriveAddress armedCart" by (simp add: armedCart_addr)
  from busOverdrive_one_shot [OF wellFormed_armedCart a3, of exampleEnv 0] n
  have i: "busOverdrive 0x03 armedCart = (0xff, armedCart\<lparr>myBusOverdriveAddress := 0xff\<rparr>)"
    by blast
  from busOverdrive_one_shot [OF wellFormed_armedCart a2, of exampleEnv 0] e m
  have "(let m = (ucast ((0x02 :: uInt16) AND 0x7f) :: uInt8);
            d = (ucast (getAddressMap armedCart m AND 0x0f) :: uInt8);
            s' = snd (busOverdrive 0x02 armedCart)
        in fst (busOverdrive 0x02 armedCart) =
             myBUSRAM armedCart ! (DSRAM + unat (drop_bit 20 (getDatastreamPointer armedCart d))) \<and>
           getAddressMap s' m = drop_bit 4 (getAddressMap armedCart m) OR push_bit 28 (ucast d) \<and>
           getDatastreamPointer s' d =
             getDatastreamPointer armedCart d + push_bit 12 (take_bit 16 (getDatastreamIncrement armedCart d)))"
    by blast
  then have r: "getAddressMap (snd (busOverdrive 0x02 armedCart)) 2 = 0"
    by (simp add: Let_def armedCart_map)
  from wellFormed_armedCart a2 a3 e m n armedCart_overdrive r i show ?thesis by blast
qed

text \<open>
  C3 as stated fails: the stream byte is \<open>0xF0\<close>, the value written is \<open>0x0F\<close>, and
  the TIA receives \<open>0x00\<close>, not \<open>0xF0\<close>.
\<close>

theorem busOverdrive_substitution_counterexample:
  "myBusOverdriveAddress armedCart = 0x02 \<and>
   fst (readFromDatastream (ucast (getAddressMap armedCart 2 AND 0x0f)) armedCart) = 0xF0 \<and>
   fst (snd (poke exampleEnv 0x02 0x0F armedCart)) = ToTIA 0x02 0x00"
proof -
  have "(0x02 :: uInt16) AND 0x1000 = 0" by simp
  from poke_low [OF this, of exampleEnv "0x0F" armedCart]
  have "fst (snd (poke exampleEnv 0x02 0x0F armedCart)) = ToTIA 0x02 0x00"
    by (simp add: armedCart_overdrive)
  then show ?thesis by (simp add: armedCart_addr armedCart_map armedCart_byte)
qed

text \<open>
  C2.  Let the cartridge be unlocked with bus stuffing on, let the peeked address
  lie in the cartridge window, and let the ROM of the active bank hold \<open>4C 00 00\<close>
  at the address and the two after it, all three inside the bank.  Unless a fast
  jump is already pending at this very address (then detector 1 wins, last part),
  the peek returns \<open>0x4C\<close> and arms a count of 2 at \<open>address + 1\<close>; the peeks at
  \<open>address + 1\<close> and \<open>address + 2\<close> return the bytes of the display RAM at the
  pointer of stream 17 and at that pointer plus \<open>0x100000\<close>, the count goes to 1 and
  to 0, and the pointer has advanced by \<open>0x200000\<close>.  After that the decoding is the
  usual one.  A peek in the cartridge window whose ROM bytes are not \<open>4C 00 00\<close>
  again is answered by the switch on the address: it returns the ROM byte and
  leaves the count at 0 (also at \<open>address + 3\<close>, which the operand address has
  reached); at a bank hotspot \<open>0x1FF5 + k\<close> it returns the ROM byte and the bank is
  \<open>k\<close>; at \<open>0x1FEF\<close> it returns the byte at the pointer of the communication stream;
  at \<open>0x1FEE\<close> it returns the amplitude computed after the data fetchers are updated.
  Last part: on every access of an unlocked cartridge with a pending fast jump at
  the peeked address, peek returns the stream byte and counts down, whatever the ROM
  byte is (also \<open>0x4C\<close>) and whatever the address is (also a named register).
\<close>

theorem fast_jump_sequence:
  assumes wf: "wellFormed s" and ul: "\<not> bankLocked s" and bs: "BUS_STUFF_ON s"
    and hi: "address AND 0x1000 \<noteq> 0"
    and inb: "unat (address AND 0x0FFF) + 2 < 4096"
    and r0: "myProgramImage s (unat (myCurrentBank s) * 4096 + unat (address AND 0x0FFF)) = Some 0x4C"
    and r1: "myProgramImage s (unat (myCurrentBank s) * 4096 + unat (address AND 0x0FFF) + 1) = Some 0"
    and r2: "myProgramImage s (unat (myCurrentBank s) * 4096 + unat (address AND 0x0FFF) + 2) = Some 0"
    and np: "\<not> (myFastJumpActive s \<noteq> 0 \<and> myJMPoperandAddress s = address AND 0x0FFF)"
  shows "(\<exists>s1 s2 s3.
      peek e address s = Some (Value 0x4C, s1) \<and>
      myFastJumpActive s1 = 2 \<and> myJMPoperandAddress s1 = (address AND 0x0FFF) + 1 \<and>
      peek e (address + 1) s1 =
        Some (Value (myDisplayImage s (unat (drop_bit 20 (getDatastreamPointer s JUMPSTREAM)))), s2) \<and>
      myFastJumpActive s2 = 1 \<and> myJMPoperandAddress s2 = (address AND 0x0FFF) + 2 \<and>
      getDatastreamPointer s2 JUMPSTREAM = getDatastreamPointer s JUMPSTREAM + 0x100000 \<and>
      peek e (address + 2) s2 =
        Some (Value (myDisplayImage s
                (unat (drop_bit 20 (getDatastreamPointer s JUMPSTREAM + 0x100000)))), s3) \<and>
      myFastJumpActive s3 = 0 \<and>
      getDatastreamPointer s3 JUMPSTREAM = getDatastreamPointer s JUMPSTREAM + 0x200000 \<and>
      (\<forall>ad pv.
         ad AND 0x1000 \<noteq> 0 \<and>
         myProgramImage s (unat (myCurrentBank s) * 4096 + unat (ad AND 0x0FFF)) = Some pv \<and>
         (pv \<noteq> 0x4C \<or>
          (\<exists>b1. myProgramImage s (unat (myCurrentBank s) * 4096 + unat (ad AND 0x0FFF) + 1)
                  = Some b1 \<and>
             (b1 \<noteq> 0 \<or>
              (\<exists>b2. myProgramImage s (unat (myCurrentBank s) * 4096 + unat (ad AND 0x0FFF) + 2)
                      = Some b2 \<and> b2 \<noteq> 0)))) \<longrightarrow>
         (ad AND 0x0FFF \<noteq> 0xFEE \<and> ad AND 0x0FFF \<noteq> 0xFEF \<longrightarrow>
            (\<exists>u'. peek e ad s3 = Some (Value pv, u') \<and> myFastJumpActive u' = 0)) \<and>
         (ad AND 0x0FFF = 0xFEF \<longrightarrow>
            map_option fst (peek e ad s3) =
              Some (Value (myDisplayImage s3
                             (unat (drop_bit 20 (getDatastreamPointer s3 COMMSTREAM)))))) \<and>
         (\<forall>k. k \<le> 6 \<and> ad AND 0x0FFF = 0xFF5 + k \<longrightarrow>
            (\<exists>u'. peek e ad s3 = Some (Value pv, u') \<and> getBank u' = k)) \<and>
         (ad AND 0x0FFF = 0xFEE \<longrightarrow>
            map_option fst (peek e ad s3) =
              map_option Value (amplitude (updateMusicModeDataFetchers e s3))))) \<and>
    (\<forall>t ad b.
       ad AND 0x1000 \<noteq> 0 \<and> \<not> bankLocked t \<and>
       myProgramImage t (unat (myCurrentBank t) * 4096 + unat (ad AND 0x0FFF)) = Some b \<and>
       myFastJumpActive t \<noteq> 0 \<and> myJMPoperandAddress t = ad AND 0x0FFF \<longrightarrow>
       peek e ad t =
         Some (Value (myDisplayImage t (unat (drop_bit 20 (getDatastreamPointer t JUMPSTREAM)))),
               setDatastreamPointer JUMPSTREAM (getDatastreamPointer t JUMPSTREAM + 0x100000)
                 (t\<lparr>myFastJumpActive := myFastJumpActive t - 1,
                    myJMPoperandAddress := myJMPoperandAddress t + 1\<rparr>)))"
proof -
  define a where "a = address AND 0x0FFF"
  define p where "p = getDatastreamPointer s JUMPSTREAM"
  define s1 where "s1 = s\<lparr>myFastJumpActive := 2, myJMPoperandAddress := a + 1\<rparr>"
  define s2 where "s2 = setDatastreamPointer JUMPSTREAM (p + 0x100000)
                          (s1\<lparr>myFastJumpActive := 1, myJMPoperandAddress := a + 2\<rparr>)"
  define s3 where "s3 = setDatastreamPointer JUMPSTREAM (p + 0x200000)
                          (s2\<lparr>myFastJumpActive := 0, myJMPoperandAddress := a + 3\<rparr>)"
  have len: "DSxPTR + unat JUMPSTREAM * 4 + 3 < length (myBUSRAM s)"
    using wf JUMPSTREAM_slot by (simp add: wellFormed_def DSRAM_def)
  have in1: "unat (address AND 0x0FFF) + 1 < 4096" using inb by simp
  note n1 = next_address [OF in1, folded one_of_nat]
  note n2 = next_address [OF inb, folded two_of_nat]
  have 1: "peek e address s = Some (Value 0x4C, s1)"
    using peek_arm [OF hi ul bs r0 r1 r2 np, of e] by (simp add: s1_def a_def)
  have pi1: "myProgramImage s1 i = myProgramImage s i" for i
    by (simp add: s1_def myProgramImage_def)
  have pi2: "myProgramImage s2 i = myProgramImage s i" for i
    by (simp add: s2_def s1_def myProgramImage_def setDatastreamPointer_def)
  have b1: "myCurrentBank s1 = myCurrentBank s" by (simp add: s1_def)
  have b2: "myCurrentBank s2 = myCurrentBank s"
    by (simp add: s2_def s1_def setDatastreamPointer_def)
  have hi1: "(address + 1) AND 0x1000 \<noteq> 0" using hi n1(2) by simp
  have hi2: "(address + 2) AND 0x1000 \<noteq> 0" using hi n2(2) by simp
  have rom1: "myProgramImage s1 (unat (myCurrentBank s1) * 4096 + unat ((address + 1) AND 0x0FFF))
                = Some 0"
    using r1 by (simp add: pi1 b1 n1(3))
  have p1: "getDatastreamPointer s1 JUMPSTREAM = p"
    by (simp add: s1_def p_def getDatastreamPointer_def)
  have 2: "peek e (address + 1) s1 = Some (Value (myDisplayImage s (unat (drop_bit 20 p))), s2)"
    using peek_fast_jump [OF hi1 rom1, of e] ul
    by (simp add: p1 n1(1)) (simp add: s1_def s2_def a_def bankLocked_def myDisplayImage_def add.commute)
  have rom2: "myProgramImage s2 (unat (myCurrentBank s2) * 4096 + unat ((address + 2) AND 0x0FFF))
                = Some 0"
    using r2 by (simp add: pi2 b2 n2(3))
  have p2: "getDatastreamPointer s2 JUMPSTREAM = p + 0x100000"
    using len
    by (simp add: s2_def s1_def getDatastreamPointer_def setDatastreamPointer_def getLE32_setLE32)
  have d2: "myBUSRAM s2 ! (DSRAM + k) = myBUSRAM s ! (DSRAM + k)" for k
    using JUMPSTREAM_slot
    by (simp add: s2_def s1_def setDatastreamPointer_def nth_setLE32_other)
  have f2: "myFastJumpActive s2 = 1" "myJMPoperandAddress s2 = a + 2" "\<not> bankLocked s2"
    using ul by (simp_all add: s2_def s1_def setDatastreamPointer_def bankLocked_def)
  have e3: "(p + 0x100000) + 0x100000 = p + 0x200000" by simp
  have 3: "peek e (address + 2) s2 =
             Some (Value (myDisplayImage s (unat (drop_bit 20 (p + 0x100000)))), s3)"
    using peek_fast_jump [OF hi2 rom2, of e] f2
    by (simp add: p2 n2(1) a_def d2 e3) (simp add: s3_def a_def myDisplayImage_def d2 add.commute)
  have len2: "DSxPTR + unat JUMPSTREAM * 4 + 3 < length (myBUSRAM s2)"
    using len by (simp add: s2_def s1_def setDatastreamPointer_def length_setLE32)
  have p3: "getDatastreamPointer s3 JUMPSTREAM = p + 0x200000"
    using len2
    by (simp add: s3_def getDatastreamPointer_def setDatastreamPointer_def getLE32_setLE32)
  have f3: "myFastJumpActive s3 = 0"
    by (simp add: s3_def setDatastreamPointer_def)
  have f1: "myFastJumpActive s1 = 2" "myJMPoperandAddress s1 = a + 1"
    by (simp_all add: s1_def)
  have pi3: "myProgramImage s3 i = myProgramImage s i" for i
    by (simp add: s3_def s2_def s1_def myProgramImage_def setDatastreamPointer_def)
  have b3: "myCurrentBank s3 = myCurrentBank s"
    by (simp add: s3_def s2_def s1_def setDatastreamPointer_def)
  have ul3: "\<not> bankLocked s3"
    using ul by (simp add: s3_def s2_def s1_def setDatastreamPointer_def bankLocked_def)
  have res: "(\<forall>ad pv.
       ad AND 0x1000 \<noteq> 0 \<and>
       myProgramImage s (unat (myCurrentBank s) * 4096 + unat (ad AND 0x0FFF)) = Some pv \<and>
       (pv \<noteq> 0x4C \<or>
        (\<exists>b1. myProgramImage s (unat (myCurrentBank s) * 4096 + unat (ad AND 0x0FFF) + 1)
                = Some b1 \<and>
           (b1 \<noteq> 0 \<or>
            (\<exists>b2. myProgramImage s (unat (myCurrentBank s) * 4096 + unat (ad AND 0x0FFF) + 2)
                    = Some b2 \<and> b2 \<noteq> 0)))) \<longrightarrow>
       (ad AND 0x0FFF \<noteq> 0xFEE \<and> ad AND 0x0FFF \<noteq> 0xFEF \<longrightarrow>
          (\<exists>u'. peek e ad s3 = Some (Value pv, u') \<and> myFastJumpActive u' = 0)) \<and>
       (ad AND 0x0FFF = 0xFEF \<longrightarrow>
          map_option fst (peek e ad s3) =
            Some (Value (myDisplayImage s3
                           (unat (drop_bit 20 (getDatastreamPointer s3 COMMSTREAM)))))) \<and>
       (\<forall>k. k \<le> 6 \<and> ad AND 0x0FFF = 0xFF5 + k \<longrightarrow>
          (\<exists>u'. peek e ad s3 = Some (Value pv, u') \<and> getBank u' = k)) \<and>
       (ad AND 0x0FFF = 0xFEE \<longrightarrow>
          map_option fst (peek e ad s3) =
            map_option Value (amplitude (updateMusicModeDataFetchers e s3))))"
  proof (intro allI impI)
    fix ad :: uInt16 and pv :: uInt8
    assume h: "ad AND 0x1000 \<noteq> 0 \<and>
         myProgramImage s (unat (myCurrentBank s) * 4096 + unat (ad AND 0x0FFF)) = Some pv \<and>
         (pv \<noteq> 0x4C \<or>
          (\<exists>b1. myProgramImage s (unat (myCurrentBank s) * 4096 + unat (ad AND 0x0FFF) + 1)
                  = Some b1 \<and>
             (b1 \<noteq> 0 \<or>
              (\<exists>b2. myProgramImage s (unat (myCurrentBank s) * 4096 + unat (ad AND 0x0FFF) + 2)
                      = Some b2 \<and> b2 \<noteq> 0))))"
    then have hi': "ad AND 0x1000 \<noteq> 0"
      and rom': "myProgramImage s3 (unat (myCurrentBank s3) * 4096 + unat (ad AND 0x0FFF)) = Some pv"
      by (simp_all add: pi3 b3)
    from h have "pv \<noteq> 0x4C \<or>
          (\<exists>b1. myProgramImage s3 (unat (myCurrentBank s3) * 4096 + unat (ad AND 0x0FFF) + 1)
                  = Some b1 \<and>
             (b1 \<noteq> 0 \<or>
              (\<exists>b2. myProgramImage s3 (unat (myCurrentBank s3) * 4096 + unat (ad AND 0x0FFF) + 2)
                      = Some b2 \<and> b2 \<noteq> 0)))"
      by (simp add: pi3 b3)
    then have n': "fastJumpOpcode s3 (ad AND 0x0FFF) pv = Some False"
      by (rule fastJumpOpcode_absent)
    note r = peek_resumes [OF hi' rom' ul3 f3 n', where e = e]
    from r(1) r(2) r(3) r(4)
    show "(ad AND 0x0FFF \<noteq> 0xFEE \<and> ad AND 0x0FFF \<noteq> 0xFEF \<longrightarrow>
            (\<exists>u'. peek e ad s3 = Some (Value pv, u') \<and> myFastJumpActive u' = 0)) \<and>
         (ad AND 0x0FFF = 0xFEF \<longrightarrow>
            map_option fst (peek e ad s3) =
              Some (Value (myDisplayImage s3
                             (unat (drop_bit 20 (getDatastreamPointer s3 COMMSTREAM)))))) \<and>
         (\<forall>k. k \<le> 6 \<and> ad AND 0x0FFF = 0xFF5 + k \<longrightarrow>
            (\<exists>u'. peek e ad s3 = Some (Value pv, u') \<and> getBank u' = k)) \<and>
         (ad AND 0x0FFF = 0xFEE \<longrightarrow>
            map_option fst (peek e ad s3) =
              map_option Value (amplitude (updateMusicModeDataFetchers e s3)))"
      by blast
  qed
  have seq: "\<exists>s1 s2 s3.
      peek e address s = Some (Value 0x4C, s1) \<and>
      myFastJumpActive s1 = 2 \<and> myJMPoperandAddress s1 = (address AND 0x0FFF) + 1 \<and>
      peek e (address + 1) s1 =
        Some (Value (myDisplayImage s (unat (drop_bit 20 (getDatastreamPointer s JUMPSTREAM)))), s2) \<and>
      myFastJumpActive s2 = 1 \<and> myJMPoperandAddress s2 = (address AND 0x0FFF) + 2 \<and>
      getDatastreamPointer s2 JUMPSTREAM = getDatastreamPointer s JUMPSTREAM + 0x100000 \<and>
      peek e (address + 2) s2 =
        Some (Value (myDisplayImage s
                (unat (drop_bit 20 (getDatastreamPointer s JUMPSTREAM + 0x100000)))), s3) \<and>
      myFastJumpActive s3 = 0 \<and>
      getDatastreamPointer s3 JUMPSTREAM = getDatastreamPointer s JUMPSTREAM + 0x200000 \<and>
      (\<forall>ad pv.
         ad AND 0x1000 \<noteq> 0 \<and>
         myProgramImage s (unat (myCurrentBank s) * 4096 + unat (ad AND 0x0FFF)) = Some pv \<and>
         (pv \<noteq> 0x4C \<or>
          (\<exists>b1. myProgramImage s (unat (myCurrentBank s) * 4096 + unat (ad AND 0x0FFF) + 1)
                  = Some b1 \<and>
             (b1 \<noteq> 0 \<or>
              (\<exists>b2. myProgramImage s (unat (myCurrentBank s) * 4096 + unat (ad AND 0x0FFF) + 2)
                      = Some b2 \<and> b2 \<noteq> 0)))) \<longrightarrow>
         (ad AND 0x0FFF \<noteq> 0xFEE \<and> ad AND 0x0FFF \<noteq> 0xFEF \<longrightarrow>
            (\<exists>u'. peek e ad s3 = Some (Value pv, u') \<and> myFastJumpActive u' = 0)) \<and>
         (ad AND 0x0FFF = 0xFEF \<longrightarrow>
            map_option fst (peek e ad s3) =
              Some (Value (myDisplayImage s3
                             (unat (drop_bit 20 (getDatastreamPointer s3 COMMSTREAM)))))) \<and>
         (\<forall>k. k \<le> 6 \<and> ad AND 0x0FFF = 0xFF5 + k \<longrightarrow>
            (\<exists>u'. peek e ad s3 = Some (Value pv, u') \<and> getBank u' = k)) \<and>
         (ad AND 0x0FFF = 0xFEE \<longrightarrow>
            map_option fst (peek e ad s3) =
              map_option Value (amplitude (updateMusicModeDataFetchers e s3))))"
    using 1 2 3 f1 f2 p2 p3 f3 res unfolding a_def [symmetric] p_def [symmetric] by blast
  have prio: "\<forall>t ad b.
       ad AND 0x1000 \<noteq> 0 \<and> \<not> bankLocked t \<and>
       myProgramImage t (unat (myCurrentBank t) * 4096 + unat (ad AND 0x0FFF)) = Some b \<and>
       myFastJumpActive t \<noteq> 0 \<and> myJMPoperandAddress t = ad AND 0x0FFF \<longrightarrow>
       peek e ad t =
         Some (Value (myDisplayImage t (unat (drop_bit 20 (getDatastreamPointer t JUMPSTREAM)))),
               setDatastreamPointer JUMPSTREAM (getDatastreamPointer t JUMPSTREAM + 0x100000)
                 (t\<lparr>myFastJumpActive := myFastJumpActive t - 1,
                    myJMPoperandAddress := myJMPoperandAddress t + 1\<rparr>))"
    using peek_fast_jump [of _ _ _ e] by (simp add: myDisplayImage_def)
  from seq prio show ?thesis by (rule conjI)
qed

theorem fast_jump_sequence_witness:
  "wellFormed jumpCart \<and> \<not> bankLocked jumpCart \<and> BUS_STUFF_ON jumpCart \<and>
   (0x1100 :: uInt16) AND 0x1000 \<noteq> 0 \<and>
   unat ((0x1100 :: uInt16) AND 0x0FFF) + 2 < 4096 \<and>
   myProgramImage jumpCart 0x100 = Some 0x4C \<and>
   myProgramImage jumpCart 0x101 = Some 0 \<and>
   myProgramImage jumpCart 0x102 = Some 0 \<and>
   myFastJumpActive jumpCart = 0 \<and>
   (\<exists>s1 s2 s3.
      peek exampleEnv 0x1100 jumpCart = Some (Value 0x4C, s1) \<and>
      peek exampleEnv 0x1101 s1 = Some (Value 0xAB, s2) \<and>
      peek exampleEnv 0x1102 s2 = Some (Value 0xCD, s3) \<and>
      myFastJumpActive s3 = 0 \<and>
      (\<exists>s4. peek exampleEnv 0x1103 s3 = Some (Value 0, s4) \<and> myFastJumpActive s4 = 0) \<and>
      (\<exists>s5. peek exampleEnv 0x1FF8 s3 = Some (Value 0, s5) \<and> getBank s5 = 3) \<and>
      (\<exists>s6. peek exampleEnv 0x1110 s3 = Some (Value 0x4C, s6) \<and> myFastJumpActive s6 = 0)) \<and>
   myProgramImage jumpCart 0x103 = Some 0 \<and> myProgramImage jumpCart 0xFF8 = Some 0 \<and>
   myProgramImage jumpCart 0x110 = Some 0x4C \<and> myProgramImage jumpCart 0x111 = Some 0x34 \<and>
   myFastJumpActive pendingCart \<noteq> 0 \<and> myJMPoperandAddress pendingCart = 0x0100 \<and>
   myProgramImage pendingCart 0x100 = Some 0x4C \<and>
   map_option fst (peek exampleEnv 0x1100 pendingCart) = Some (Value 0xAB)"
proof -
  have hi: "(0x1100 :: uInt16) AND 0x1000 \<noteq> 0" by simp
  have a: "(0x1100 :: uInt16) AND 0x0FFF = 0x100" by simp
  have inb: "unat ((0x1100 :: uInt16) AND 0x0FFF) + 2 < 4096" by (simp add: a)
  have r0: "myProgramImage jumpCart
              (unat (myCurrentBank jumpCart) * 4096 + unat ((0x1100 :: uInt16) AND 0x0FFF)) = Some 0x4C"
    and r1: "myProgramImage jumpCart
              (unat (myCurrentBank jumpCart) * 4096 + unat ((0x1100 :: uInt16) AND 0x0FFF) + 1) = Some 0"
    and r2: "myProgramImage jumpCart
              (unat (myCurrentBank jumpCart) * 4096 + unat ((0x1100 :: uInt16) AND 0x0FFF) + 2) = Some 0"
    by (simp_all add: a jumpCart_facts jumpCart_rom)
  have np: "\<not> (myFastJumpActive jumpCart \<noteq> 0 \<and>
               myJMPoperandAddress jumpCart = (0x1100 :: uInt16) AND 0x0FFF)"
    by (simp add: jumpCart_facts)
  note t = fast_jump_sequence [OF jumpCart_facts(1) jumpCart_facts(2) jumpCart_facts(3)
      hi inb r0 r1 r2 np, of exampleEnv]
  from t [THEN conjunct1] obtain s1 s2 s3 where
    s: "peek exampleEnv 0x1100 jumpCart = Some (Value 0x4C, s1)"
    "peek exampleEnv (0x1100 + 1) s1 =
       Some (Value (myDisplayImage jumpCart
               (unat (drop_bit 20 (getDatastreamPointer jumpCart JUMPSTREAM)))), s2)"
    "peek exampleEnv (0x1100 + 2) s2 =
       Some (Value (myDisplayImage jumpCart
               (unat (drop_bit 20 (getDatastreamPointer jumpCart JUMPSTREAM + 0x100000)))), s3)"
    "myFastJumpActive s3 = 0"
    and res: "\<forall>ad pv.
         ad AND 0x1000 \<noteq> 0 \<and>
         myProgramImage jumpCart (unat (myCurrentBank jumpCart) * 4096 + unat (ad AND 0x0FFF))
           = Some pv \<and>
         (pv \<noteq> 0x4C \<or>
          (\<exists>b1. myProgramImage jumpCart
                  (unat (myCurrentBank jumpCart) * 4096 + unat (ad AND 0x0FFF) + 1) = Some b1 \<and>
             (b1 \<noteq> 0 \<or>
              (\<exists>b2. myProgramImage jumpCart
                      (unat (myCurrentBank jumpCart) * 4096 + unat (ad AND 0x0FFF) + 2) = Some b2 \<and>
                 b2 \<noteq> 0)))) \<longrightarrow>
         (ad AND 0x0FFF \<noteq> 0xFEE \<and> ad AND 0x0FFF \<noteq> 0xFEF \<longrightarrow>
            (\<exists>u'. peek exampleEnv ad s3 = Some (Value pv, u') \<and> myFastJumpActive u' = 0)) \<and>
         (ad AND 0x0FFF = 0xFEF \<longrightarrow>
            map_option fst (peek exampleEnv ad s3) =
              Some (Value (myDisplayImage s3
                             (unat (drop_bit 20 (getDatastreamPointer s3 COMMSTREAM)))))) \<and>
         (\<forall>k. k \<le> 6 \<and> ad AND 0x0FFF = 0xFF5 + k \<longrightarrow>
            (\<exists>u'. peek exampleEnv ad s3 = Some (Value pv, u') \<and> getBank u' = k)) \<and>
         (ad AND 0x0FFF = 0xFEE \<longrightarrow>
            map_option fst (peek exampleEnv ad s3) =
              map_option Value (amplitude (updateMusicModeDataFetchers exampleEnv s3)))"
    by blast
  have q1: "(0x1103 :: uInt16) AND 0x1000 \<noteq> 0 \<and>
         myProgramImage jumpCart
           (unat (myCurrentBank jumpCart) * 4096 + unat ((0x1103 :: uInt16) AND 0x0FFF)) = Some 0 \<and>
         ((0 :: uInt8) \<noteq> 0x4C \<or>
          (\<exists>b1. myProgramImage jumpCart
                  (unat (myCurrentBank jumpCart) * 4096 + unat ((0x1103 :: uInt16) AND 0x0FFF) + 1)
                    = Some b1 \<and>
             (b1 \<noteq> 0 \<or>
              (\<exists>b2. myProgramImage jumpCart
                      (unat (myCurrentBank jumpCart) * 4096 + unat ((0x1103 :: uInt16) AND 0x0FFF) + 2)
                        = Some b2 \<and>
                 b2 \<noteq> 0))))"
    by (simp add: jumpCart_facts jumpCart_more)
  have q1': "(0x1103 :: uInt16) AND 0x0FFF \<noteq> 0xFEE \<and> (0x1103 :: uInt16) AND 0x0FFF \<noteq> 0xFEF"
    by simp
  from res [rule_format, OF q1, THEN conjunct1] q1'
  have n1: "\<exists>s4. peek exampleEnv 0x1103 s3 = Some (Value 0, s4) \<and> myFastJumpActive s4 = 0"
    by blast
  have q2: "(0x1FF8 :: uInt16) AND 0x1000 \<noteq> 0 \<and>
         myProgramImage jumpCart
           (unat (myCurrentBank jumpCart) * 4096 + unat ((0x1FF8 :: uInt16) AND 0x0FFF)) = Some 0 \<and>
         ((0 :: uInt8) \<noteq> 0x4C \<or>
          (\<exists>b1. myProgramImage jumpCart
                  (unat (myCurrentBank jumpCart) * 4096 + unat ((0x1FF8 :: uInt16) AND 0x0FFF) + 1)
                    = Some b1 \<and>
             (b1 \<noteq> 0 \<or>
              (\<exists>b2. myProgramImage jumpCart
                      (unat (myCurrentBank jumpCart) * 4096 + unat ((0x1FF8 :: uInt16) AND 0x0FFF) + 2)
                        = Some b2 \<and>
                 b2 \<noteq> 0))))"
    by (simp add: jumpCart_facts jumpCart_more)
  have q2': "(3 :: uInt16) \<le> 6 \<and> (0x1FF8 :: uInt16) AND 0x0FFF = 0xFF5 + 3" by simp
  from res [rule_format, OF q2, THEN conjunct2, THEN conjunct2, THEN conjunct1, rule_format, OF q2']
  have n2: "\<exists>s5. peek exampleEnv 0x1FF8 s3 = Some (Value 0, s5) \<and> getBank s5 = 3" .
  have q3: "(0x1110 :: uInt16) AND 0x1000 \<noteq> 0 \<and>
         myProgramImage jumpCart
           (unat (myCurrentBank jumpCart) * 4096 + unat ((0x1110 :: uInt16) AND 0x0FFF))
             = Some 0x4C \<and>
         ((0x4C :: uInt8) \<noteq> 0x4C \<or>
          (\<exists>b1. myProgramImage jumpCart
                  (unat (myCurrentBank jumpCart) * 4096 + unat ((0x1110 :: uInt16) AND 0x0FFF) + 1)
                    = Some b1 \<and>
             (b1 \<noteq> 0 \<or>
              (\<exists>b2. myProgramImage jumpCart
                      (unat (myCurrentBank jumpCart) * 4096 + unat ((0x1110 :: uInt16) AND 0x0FFF) + 2)
                        = Some b2 \<and>
                 b2 \<noteq> 0))))"
    by (simp add: jumpCart_facts jumpCart_more)
  have q3': "(0x1110 :: uInt16) AND 0x0FFF \<noteq> 0xFEE \<and> (0x1110 :: uInt16) AND 0x0FFF \<noteq> 0xFEF"
    by simp
  from res [rule_format, OF q3, THEN conjunct1] q3'
  have n3: "\<exists>s6. peek exampleEnv 0x1110 s3 = Some (Value 0x4C, s6) \<and> myFastJumpActive s6 = 0"
    by blast
  from s n1 n2 n3 have seq: "\<exists>s1 s2 s3.
      peek exampleEnv 0x1100 jumpCart = Some (Value 0x4C, s1) \<and>
      peek exampleEnv 0x1101 s1 = Some (Value 0xAB, s2) \<and>
      peek exampleEnv 0x1102 s2 = Some (Value 0xCD, s3) \<and>
      myFastJumpActive s3 = 0 \<and>
      (\<exists>s4. peek exampleEnv 0x1103 s3 = Some (Value 0, s4) \<and> myFastJumpActive s4 = 0) \<and>
      (\<exists>s5. peek exampleEnv 0x1FF8 s3 = Some (Value 0, s5) \<and> getBank s5 = 3) \<and>
      (\<exists>s6. peek exampleEnv 0x1110 s3 = Some (Value 0x4C, s6) \<and> myFastJumpActive s6 = 0)"
    by (simp add: jumpCart_stream)
  have "peek exampleEnv 0x1100 pendingCart =
         Some (Value (myDisplayImage pendingCart
                 (unat (drop_bit 20 (getDatastreamPointer pendingCart JUMPSTREAM)))),
               setDatastreamPointer JUMPSTREAM (getDatastreamPointer pendingCart JUMPSTREAM + 0x100000)
                 (pendingCart\<lparr>myFastJumpActive := myFastJumpActive pendingCart - 1,
                    myJMPoperandAddress := myJMPoperandAddress pendingCart + 1\<rparr>))"
    using t [THEN conjunct2, rule_format, of "0x1100" pendingCart "0x4C"]
    by (simp add: pendingCart_facts)
  then have prio: "map_option fst (peek exampleEnv 0x1100 pendingCart) = Some (Value 0xAB)"
    by (simp add: pendingCart_facts)
  from jumpCart_facts jumpCart_rom jumpCart_more hi inb seq prio pendingCart_facts
  show ?thesis by blast
qed

text \<open>
  C1, as the code has it.  Let \<open>s\<close> be the cartridge that is saved and \<open>t\<close> the
  cartridge that loads, both well formed.  \<^verbatim>\<open>load\<close> of what \<^verbatim>\<open>save\<close> wrote returns
  true; every saved integer member of \<open>t\<close> becomes that of \<open>s\<close>, the fractional clocks
  become \<open>fracIn (fracOut f)\<close> (the accumulator scaled by \<open>10\<^sup>8\<close>, truncated to 32 bits
  and scaled back), and then \<^verbatim>\<open>bank\<close> is called with the restored register: the bank
  is applied through the bank operation.  \<^verbatim>\<open>getBank\<close> is that of \<open>s\<close>; with the same
  ROM image the amplitude computed from the restored voice state is that of \<open>s\<close>.
  With the bank unlocked, as it is when the debugger loads a state, the pages are
  mapped again for the restored bank and \<^verbatim>\<open>myBankChanged\<close> is set; \<^verbatim>\<open>bank\<close> declines
  while the bank is locked, and then the page table and \<^verbatim>\<open>myBankChanged\<close> stay as
  they were.  When \<open>t\<close> has the ROM image and the lock flag of \<open>s\<close>, which \<^verbatim>\<open>save\<close> does not
  write, \<^verbatim>\<open>peek\<close> returns after the load what it returns on \<open>s\<close> at every address
  other than the amplitude register \<open>0x1FEE\<close>; at the same system cycle count it
  returns at every address, the amplitude register included, what it returns on \<open>s\<close>
  with the accumulator replaced by \<open>fracIn (fracOut f)\<close>.  The last two parts are the
  case of one cartridge that is saved and loads what it saved: nothing is assumed,
  and the only difference that \<^verbatim>\<open>peek\<close> can show is that of the accumulator at the
  amplitude register.
\<close>

theorem save_load_round_trip:
  assumes "wellFormed s" and "wellFormed t"
  shows
   "load e (snd (save e s [])) t =
     (True,
      snd (bank e (myCurrentBank s)
        (t\<lparr>myCurrentBank := myCurrentBank s,
           myBUSRAM := myBUSRAM s,
           myBusOverdriveAddress := myBusOverdriveAddress s,
           mySTYZeroPageAddress := mySTYZeroPageAddress s,
           myJMPoperandAddress := myJMPoperandAddress s,
           mySystemCycles := mySystemCycles s,
           myFractionalClocks := fracIn e (fracOut e (myFractionalClocks s)),
           myARMCycles := myARMCycles s,
           myMusicCounters := myMusicCounters s,
           myMusicFrequencies := myMusicFrequencies s,
           myMusicWaveformSize := myMusicWaveformSize s,
           myMode := myMode s,
           myFastJumpActive := myFastJumpActive s\<rparr>))) \<and>
    getBank (snd (load e (snd (save e s [])) t)) = getBank s \<and>
    (myImage t = myImage s \<longrightarrow>
       amplitude (snd (load e (snd (save e s [])) t)) = amplitude s) \<and>
    (\<not> bankLocked t \<longrightarrow>
       sysPages (snd (load e (snd (save e s [])) t)) =
         mapPages (PAGE_SHIFT e) (unat (push_bit 12 (myCurrentBank s) :: uInt16)) 0x1040
           (sysPages t) \<and>
       myBankChanged (snd (load e (snd (save e s [])) t))) \<and>
    (bankLocked t \<longrightarrow>
       sysPages (snd (load e (snd (save e s [])) t)) = sysPages t \<and>
       myBankChanged (snd (load e (snd (save e s [])) t)) = myBankChanged t) \<and>
    (myImage t = myImage s \<and> bankLocked t = bankLocked s \<longrightarrow>
       (\<forall>a. a AND 0x1000 = 0 \<or> a AND 0x0FFF \<noteq> 0xFEE \<longrightarrow>
            map_option fst (peek e a (snd (load e (snd (save e s [])) t)))
            = map_option fst (peek e a s))) \<and>
    (myImage t = myImage s \<and> bankLocked t = bankLocked s \<and> sysCycles t = sysCycles s \<longrightarrow>
       (\<forall>a. map_option fst (peek e a (snd (load e (snd (save e s [])) t)))
            = map_option fst (peek e a
                (s\<lparr>myFractionalClocks := fracIn e (fracOut e (myFractionalClocks s))\<rparr>)))) \<and>
    (\<forall>a. a AND 0x1000 = 0 \<or> a AND 0x0FFF \<noteq> 0xFEE \<longrightarrow>
         map_option fst (peek e a (snd (load e (snd (save e s [])) s)))
         = map_option fst (peek e a s)) \<and>
    (\<forall>a. map_option fst (peek e a (snd (load e (snd (save e s [])) s)))
         = map_option fst (peek e a
             (s\<lparr>myFractionalClocks := fracIn e (fracOut e (myFractionalClocks s))\<rparr>)))"
proof -
  note ls = load_save [OF assms, of e]
  have 2: "getBank (snd (load e (snd (save e s [])) t)) = getBank s"
    unfolding ls by (simp add: bank_def Let_def getBank_def)
  have 3: "myImage t = myImage s \<longrightarrow>
       amplitude (snd (load e (snd (save e s [])) t)) = amplitude s"
    unfolding ls by (auto intro!: amplitude_cong simp: bank_def Let_def)
  have 4: "\<not> bankLocked t \<longrightarrow>
       sysPages (snd (load e (snd (save e s [])) t)) =
         mapPages (PAGE_SHIFT e) (unat (push_bit 12 (myCurrentBank s) :: uInt16)) 0x1040
           (sysPages t) \<and>
       myBankChanged (snd (load e (snd (save e s [])) t))"
    unfolding ls by (simp add: bank_def Let_def bankLocked_def)
  have 5: "bankLocked t \<longrightarrow>
       sysPages (snd (load e (snd (save e s [])) t)) = sysPages t \<and>
       myBankChanged (snd (load e (snd (save e s [])) t)) = myBankChanged t"
    unfolding ls by (simp add: bank_def Let_def bankLocked_def)
  have 6: "myImage t = myImage s \<and> bankLocked t = bankLocked s \<longrightarrow>
       (\<forall>a. a AND 0x1000 = 0 \<or> a AND 0x0FFF \<noteq> 0xFEE \<longrightarrow>
            map_option fst (peek e a (snd (load e (snd (save e s [])) t)))
            = map_option fst (peek e a s))"
  proof (intro impI allI)
    fix a :: uInt16
    assume h: "myImage t = myImage s \<and> bankLocked t = bankLocked s"
      and na: "a AND 0x1000 = 0 \<or> a AND 0x0FFF \<noteq> 0xFEE"
    have "sameRegisters (snd (load e (snd (save e s [])) t)) s"
      using load_save_registers [OF assms, of e] h by blast
    then show "map_option fst (peek e a (snd (load e (snd (save e s [])) t)))
            = map_option fst (peek e a s)"
      using na by (rule peek_value_registers)
  qed
  have 7: "myImage t = myImage s \<and> bankLocked t = bankLocked s \<and> sysCycles t = sysCycles s \<longrightarrow>
       (\<forall>a. map_option fst (peek e a (snd (load e (snd (save e s [])) t)))
            = map_option fst (peek e a
                (s\<lparr>myFractionalClocks := fracIn e (fracOut e (myFractionalClocks s))\<rparr>)))"
  proof (intro impI allI)
    fix a :: uInt16
    assume h: "myImage t = myImage s \<and> bankLocked t = bankLocked s \<and> sysCycles t = sysCycles s"
    have "sameObservable (snd (load e (snd (save e s [])) t))
           (s\<lparr>myFractionalClocks := fracIn e (fracOut e (myFractionalClocks s))\<rparr>)"
      using load_save_observable [OF assms, of e] h by blast
    then show "map_option fst (peek e a (snd (load e (snd (save e s [])) t)))
            = map_option fst (peek e a
                (s\<lparr>myFractionalClocks := fracIn e (fracOut e (myFractionalClocks s))\<rparr>))"
      by (rule peek_value)
  qed
  have 8: "\<forall>a. a AND 0x1000 = 0 \<or> a AND 0x0FFF \<noteq> 0xFEE \<longrightarrow>
         map_option fst (peek e a (snd (load e (snd (save e s [])) s)))
         = map_option fst (peek e a s)"
  proof (intro impI allI)
    fix a :: uInt16
    assume na: "a AND 0x1000 = 0 \<or> a AND 0x0FFF \<noteq> 0xFEE"
    have "sameRegisters (snd (load e (snd (save e s [])) s)) s"
      by (rule load_save_registers [OF assms(1) assms(1) refl refl])
    then show "map_option fst (peek e a (snd (load e (snd (save e s [])) s)))
         = map_option fst (peek e a s)"
      using na by (rule peek_value_registers)
  qed
  have 9: "\<forall>a. map_option fst (peek e a (snd (load e (snd (save e s [])) s)))
         = map_option fst (peek e a
             (s\<lparr>myFractionalClocks := fracIn e (fracOut e (myFractionalClocks s))\<rparr>))"
  proof (intro allI)
    fix a :: uInt16
    have "sameObservable (snd (load e (snd (save e s [])) s))
           (s\<lparr>myFractionalClocks := fracIn e (fracOut e (myFractionalClocks s))\<rparr>)"
      by (rule load_save_observable [OF assms(1) assms(1) refl refl refl])
    then show "map_option fst (peek e a (snd (load e (snd (save e s [])) s)))
         = map_option fst (peek e a
             (s\<lparr>myFractionalClocks := fracIn e (fracOut e (myFractionalClocks s))\<rparr>))"
      by (rule peek_value)
  qed
  from ls 2 3 4 5 6 7 8 9 show ?thesis by blast
qed

theorem save_load_round_trip_witness:
  "wellFormed savedCart \<and> wellFormed blankCart \<and> wellFormed staleCart \<and>
   \<not> bankLocked blankCart \<and> bankLocked staleCart \<and>
   myImage blankCart = myImage savedCart \<and> bankLocked blankCart = bankLocked savedCart \<and>
   sysCycles blankCart = sysCycles savedCart \<and>
   getBank (snd (load exampleEnv (snd (save exampleEnv savedCart [])) blankCart)) = 3 \<and>
   sysPages (snd (load exampleEnv (snd (save exampleEnv savedCart [])) blankCart)) 65
     = Some 0x3040 \<and>
   ((0x1FF8 :: uInt16) AND 0x1000 = 0 \<or> (0x1FF8 :: uInt16) AND 0x0FFF \<noteq> 0xFEE) \<and>
   map_option fst (peek exampleEnv 0x1FF8
       (snd (load exampleEnv (snd (save exampleEnv savedCart [])) blankCart)))
     = map_option fst (peek exampleEnv 0x1FF8 savedCart) \<and>
   map_option fst (peek exampleEnv 0x1FEE
       (snd (load exampleEnv (snd (save exampleEnv savedCart [])) blankCart)))
     = map_option fst (peek exampleEnv 0x1FEE
         (savedCart\<lparr>myFractionalClocks :=
            fracIn exampleEnv (fracOut exampleEnv (myFractionalClocks savedCart))\<rparr>)) \<and>
   sysPages (snd (load exampleEnv (snd (save exampleEnv savedCart [])) staleCart))
     = sysPages staleCart \<and>
   map_option fst (peek exampleEnv 0x1FF8
       (snd (load exampleEnv (snd (save exampleEnv savedCart [])) savedCart)))
     = map_option fst (peek exampleEnv 0x1FF8 savedCart) \<and>
   wellFormed tickCart \<and>
   map_option fst (peek exactEnv 0x1FEE
       (snd (load exactEnv (snd (save exactEnv tickCart [])) tickCart)))
     = map_option fst (peek exactEnv 0x1FEE
         (tickCart\<lparr>myFractionalClocks := 98323823 / 100000000\<rparr>))"
proof -
  note a = save_load_round_trip [OF wellFormed_savedCart wellFormed_blankCart, of exampleEnv]
  note c = save_load_round_trip [OF wellFormed_savedCart wellFormed_savedCart, of exampleEnv]
  note b = save_load_round_trip [OF wellFormed_savedCart wellFormed_staleCart, of exampleEnv]
  have ul: "\<not> bankLocked blankCart" by (simp add: bankLocked_def blankCart_def)
  have h: "myImage blankCart = myImage savedCart" "bankLocked blankCart = bankLocked savedCart"
    "sysCycles blankCart = sysCycles savedCart"
    using ul by (simp_all add: savedCart_facts)
  have na: "(0x1FF8 :: uInt16) AND 0x1000 = 0 \<or> (0x1FF8 :: uInt16) AND 0x0FFF \<noteq> 0xFEE"
    by simp
  from a have "getBank (snd (load exampleEnv (snd (save exampleEnv savedCart [])) blankCart))
      = getBank savedCart" by blast
  then have g: "getBank (snd (load exampleEnv (snd (save exampleEnv savedCart [])) blankCart)) = 3"
    by (simp add: getBank_def savedCart_facts)
  from a ul have "sysPages (snd (load exampleEnv (snd (save exampleEnv savedCart [])) blankCart)) =
         mapPages (PAGE_SHIFT exampleEnv) (unat (push_bit 12 (myCurrentBank savedCart) :: uInt16))
           0x1040 (sysPages blankCart)" by blast
  moreover have "mapPages 6 0x3000 0x1040 (sysPages blankCart) (0x1040 div 2 ^ 6)
      = Some (0x3000 + 0x1040 mod 0x1000)"
    by (rule mapPages_first) simp
  ultimately have pg: "sysPages (snd (load exampleEnv (snd (save exampleEnv savedCart [])) blankCart)) 65
     = Some 0x3040"
    by (simp add: savedCart_facts exampleEnv_def)
  from a h(1,2) na have po: "map_option fst (peek exampleEnv 0x1FF8
       (snd (load exampleEnv (snd (save exampleEnv savedCart [])) blankCart)))
     = map_option fst (peek exampleEnv 0x1FF8 savedCart)" by blast
  from a h have pk: "map_option fst (peek exampleEnv 0x1FEE
       (snd (load exampleEnv (snd (save exampleEnv savedCart [])) blankCart)))
     = map_option fst (peek exampleEnv 0x1FEE
         (savedCart\<lparr>myFractionalClocks :=
            fracIn exampleEnv (fracOut exampleEnv (myFractionalClocks savedCart))\<rparr>))" by blast
  from b staleCart_facts(2)
  have st: "sysPages (snd (load exampleEnv (snd (save exampleEnv savedCart [])) staleCart))
     = sysPages staleCart" by blast
  from c na have sc: "map_option fst (peek exampleEnv 0x1FF8
       (snd (load exampleEnv (snd (save exampleEnv savedCart [])) savedCart)))
     = map_option fst (peek exampleEnv 0x1FF8 savedCart)" by blast
  note d = save_load_round_trip [OF wellFormed_tickCart wellFormed_tickCart, of exactEnv]
  from d have "map_option fst (peek exactEnv 0x1FEE
       (snd (load exactEnv (snd (save exactEnv tickCart [])) tickCart)))
     = map_option fst (peek exactEnv 0x1FEE
         (tickCart\<lparr>myFractionalClocks :=
            fracIn exactEnv (fracOut exactEnv (myFractionalClocks tickCart))\<rparr>))" by blast
  then have tk: "map_option fst (peek exactEnv 0x1FEE
       (snd (load exactEnv (snd (save exactEnv tickCart [])) tickCart)))
     = map_option fst (peek exactEnv 0x1FEE
         (tickCart\<lparr>myFractionalClocks := 98323823 / 100000000\<rparr>))"
    by (simp only: tick_frac)
  from wellFormed_savedCart wellFormed_blankCart wellFormed_staleCart ul staleCart_facts(2)
    h na g pg po pk st sc wellFormed_tickCart tk
  show ?thesis by blast
qed

text \<open>
  C1 as stated fails at the amplitude register.  In \<open>tickCart\<close> the clocks due are
  \<open>20000 / 1193191.66666667 + 0.9832382373\<close>, that is \<open>1.0000000038\<close>: one whole
  clock, voice 0 moves to the second waveform byte, and \<^verbatim>\<open>peek(0x1FEE)\<close> returns 1.
  \<^verbatim>\<open>save\<close> writes the accumulator as \<open>98323823\<close>, \<^verbatim>\<open>load\<close> restores \<open>0.98323823\<close>, the
  clocks due are \<open>0.9999999964\<close>, no whole clock, and the same \<^verbatim>\<open>peek\<close> on the same
  cartridge returns 0.  Both distances from the clock boundary are more than
  \<open>3.5 \<times> 10\<^sup>-\<^sup>9\<close>, far above the rounding error of a \<^verbatim>\<open>double\<close> near 1, which is about
  \<open>10\<^sup>-\<^sup>1\<^sup>6\<close>.  In \<open>exactEnv\<close> the accumulator of \<open>tickCart\<close> is the one that
  \<^verbatim>\<open>updateMusicModeDataFetchers\<close> reaches from \<open>0.0\<close> over \<open>149068677593\<close> cycles, here
  in 69 updates after \<open>2\<^sup>3\<^sup>1 - 1\<close> cycles each and one after \<open>892305950\<close> cycles.
\<close>

theorem accumulator_round_trip_counterexample:
  "wellFormed tickCart \<and>
   fold (\<lambda>c f. snd (toClocks exactEnv c f)) (replicate 69 0x7FFFFFFF @ [892305950])
     (fracZero exactEnv) = myFractionalClocks tickCart \<and>
   map_option fst (peek exactEnv 0x1FEE tickCart) = Some (Value 1) \<and>
   fst (load exactEnv (snd (save exactEnv tickCart [])) tickCart) \<and>
   myFractionalClocks (snd (load exactEnv (snd (save exactEnv tickCart [])) tickCart))
     = 98323823 / 100000000 \<and>
   map_option fst (peek exactEnv 0x1FEE
       (snd (load exactEnv (snd (save exactEnv tickCart [])) tickCart))) = Some (Value 0)"
proof -
  note ls = load_save [OF wellFormed_tickCart wellFormed_tickCart, of exactEnv]
  have b: "map_option fst (peek exactEnv 0x1FEE tickCart) = Some (Value 1)"
    using tick_peek [of "myFractionalClocks tickCart"] unfolding tick_same
    by (simp add: tick_before)
  have l: "fst (load exactEnv (snd (save exactEnv tickCart [])) tickCart)"
    unfolding ls by simp
  have f: "myFractionalClocks (snd (load exactEnv (snd (save exactEnv tickCart [])) tickCart))
     = 98323823 / 100000000"
    unfolding ls by (simp add: bank_def Let_def tick_frac)
  have "sameObservable (snd (load exactEnv (snd (save exactEnv tickCart [])) tickCart))
           (tickCart\<lparr>myFractionalClocks :=
              fracIn exactEnv (fracOut exactEnv (myFractionalClocks tickCart))\<rparr>)"
    by (rule load_save_observable [OF wellFormed_tickCart wellFormed_tickCart]) simp_all
  then have "map_option fst (peek exactEnv 0x1FEE
       (snd (load exactEnv (snd (save exactEnv tickCart [])) tickCart)))
     = map_option fst (peek exactEnv 0x1FEE
         (tickCart\<lparr>myFractionalClocks :=
              fracIn exactEnv (fracOut exactEnv (myFractionalClocks tickCart))\<rparr>))"
    by (rule peek_value)
  then have a: "map_option fst (peek exactEnv 0x1FEE
       (snd (load exactEnv (snd (save exactEnv tickCart [])) tickCart))) = Some (Value 0)"
    unfolding tick_frac tick_peek by (simp add: tick_after)
  from wellFormed_tickCart tickCart_accumulator b l f a show ?thesis by blast
qed

end
